theory Spec2Isabelle
  imports Complex_Main
begin

section \<open>Floats, tensors and the noise schedule\<close>

text \<open>
  A tensor entry is a real number or \<open>NonFinite\<close>, which stands for NaN and for both
  infinities. Finite arithmetic is idealised as real arithmetic (no rounding, no overflow).
  \<open>NonFinite\<close> absorbs every operation; a division by zero and the square root of a
  negative number give \<open>NonFinite\<close>, where torch gives an infinity or NaN and raises nothing.
  (The one operation of IEEE arithmetic that leaves the non-finite values, a finite number
  divided by an infinity, is not told apart: its result is \<open>NonFinite\<close> here.)
\<close>

datatype flt = Fin real | NonFinite

datatype error =
    IndexError
  | ShapeError
  | ValueError string
  | UnboundLocalError string
  | RuntimeError string
  | ZeroDivisionError

fun flift2 :: "(real \<Rightarrow> real \<Rightarrow> real) \<Rightarrow> flt \<Rightarrow> flt \<Rightarrow> flt" where
  "flift2 f (Fin x) (Fin y) = Fin (f x y)"
| "flift2 f _ _ = NonFinite"

definition fadd :: "flt \<Rightarrow> flt \<Rightarrow> flt" where
  "fadd = flift2 (+)"

definition fsub :: "flt \<Rightarrow> flt \<Rightarrow> flt" where
  "fsub = flift2 (-)"

definition fmul :: "flt \<Rightarrow> flt \<Rightarrow> flt" where
  "fmul = flift2 (*)"

fun fdiv :: "flt \<Rightarrow> flt \<Rightarrow> flt" where
  "fdiv (Fin x) (Fin y) = (if y = 0 then NonFinite else Fin (x / y))"
| "fdiv _ _ = NonFinite"

text \<open>\<open>x ** 0.5\<close>\<close>

fun fsqrt :: "flt \<Rightarrow> flt" where
  "fsqrt (Fin x) = (if x < 0 then NonFinite else Fin (sqrt x))"
| "fsqrt NonFinite = NonFinite"

fun fabs :: "flt \<Rightarrow> flt" where
  "fabs (Fin x) = Fin \<bar>x\<bar>"
| "fabs NonFinite = NonFinite"

text \<open>
  A latent tensor has shape \<open>[B, C, H, W]\<close>: a list of \<open>B\<close> samples, each a list of \<open>C\<close>
  channels of \<open>H\<close> rows of \<open>W\<close> entries. \<open>shape4\<close> records every length, so two tensors
  of equal \<open>shape4\<close> have the same entries' positions.
\<close>

type_synonym 'a sample = "'a list list list"
type_synonym 'a tensor4 = "'a sample list"
type_synonym tensor = "flt tensor4"

definition smap :: "('a \<Rightarrow> 'b) \<Rightarrow> 'a sample \<Rightarrow> 'b sample" where
  "smap f = map (map (map f))"

definition smap2 :: "('a \<Rightarrow> 'b \<Rightarrow> 'c) \<Rightarrow> 'a sample \<Rightarrow> 'b sample \<Rightarrow> 'c sample" where
  "smap2 f a b = map2 (map2 (map2 f)) a b"

definition shape3 :: "'a sample \<Rightarrow> nat list list" where
  "shape3 = map (map length)"

definition shape4 :: "'a tensor4 \<Rightarrow> nat list list list" where
  "shape4 = map shape3"

definition fin4 :: "real tensor4 \<Rightarrow> tensor" where
  "fin4 = map (smap Fin)"

text \<open>All entries of a sample, in row-major order.\<close>

definition flat :: "'a sample \<Rightarrow> 'a list" where
  "flat s = concat (concat s)"

text \<open>
  Indexing a one-dimensional tensor by an integer: a negative index counts from the end, an
  index outside \<open>[-n, n)\<close> raises.
\<close>

definition index_tensor :: "'a list \<Rightarrow> int \<Rightarrow> error + 'a" where
  "index_tensor xs i =
     (let n = int (length xs); j = (if i < 0 then n + i else i)
      in if 0 \<le> j \<and> j < n then Inr (xs ! nat j) else Inl IndexError)"

text \<open>\<open>xs[timesteps]\<close> for a tensor of indices: one entry per index.\<close>

fun gather :: "'a list \<Rightarrow> int list \<Rightarrow> error + 'a list" where
  "gather xs [] = Inr []"
| "gather xs (t # ts) =
     (case index_tensor xs t of
        Inl e \<Rightarrow> Inl e
      | Inr a \<Rightarrow> (case gather xs ts of Inl e \<Rightarrow> Inl e | Inr as \<Rightarrow> Inr (a # as)))"

text \<open>
  The scheduler object of the diffusers library, as far as this program reads it: the
  tensor \<open>alphas_cumprod\<close> and the configuration entries \<open>num_train_timesteps\<close> and
  \<open>prediction_type\<close>.
\<close>

record scheduler =
  alphas_cumprod :: "real list"
  num_train_timesteps :: int
  prediction_type :: string

subsection \<open>\<open>eps_to_mu\<close> (dmd/model.py)\<close>

text \<open>
  The entry of line 51: \<open>(sample - beta_prod_t ** 0.5 * model_output) / alpha_prod_t ** 0.5\<close>
  with \<open>beta_prod_t = 1 - alpha_prod_t\<close>.
\<close>

definition pred_original :: "real \<Rightarrow> flt \<Rightarrow> flt \<Rightarrow> flt" where
  "pred_original alpha_prod_t x out =
     fdiv (fsub x (fmul (fsqrt (fsub (Fin 1) (Fin alpha_prod_t))) out))
          (fsqrt (Fin alpha_prod_t))"

text \<open>
  \<open>alphas_cumprod[timesteps]\<close> has one entry per timestep; the loop of line 48 gives it the
  rank of \<open>sample\<close> (shape \<open>[B, 1, 1, 1]\<close>), so that entry \<open>b\<close> is used for every entry of
  sample \<open>b\<close>. The model covers the inputs every caller passes: one timestep per sample and
  a \<open>model_output\<close> of the shape of \<open>sample\<close>. For other shapes torch raises or broadcasts
  further; the model returns \<open>ShapeError\<close> for all of them.
\<close>

definition eps_to_mu :: "scheduler \<Rightarrow> tensor \<Rightarrow> tensor \<Rightarrow> int list \<Rightarrow> error + tensor" where
  "eps_to_mu sched model_output sample timesteps =
     (case gather (alphas_cumprod sched) timesteps of
        Inl e \<Rightarrow> Inl e
      | Inr alpha_prod_t \<Rightarrow>
          if length alpha_prod_t = length sample \<and> shape4 model_output = shape4 sample
          then Inr (map2 (\<lambda>a (x, out). smap2 (pred_original a) x out)
                      alpha_prod_t (zip sample model_output))
          else Inl ShapeError)"

text \<open>
  Modelled from the spec: \<open>add_noise\<close> is a method of the diffusers scheduler and is not
  part of the repository; the spec gives the forward-diffusion formula
  \<open>noisy = sqrt(alpha_prod[t]) * latent + sqrt(1 - alpha_prod[t]) * noise\<close>, with the
  schedule scalars broadcast across the full tensor rank.
\<close>

definition forward_entry :: "real \<Rightarrow> flt \<Rightarrow> flt \<Rightarrow> flt" where
  "forward_entry alpha_prod_t x n =
     fadd (fmul (fsqrt (Fin alpha_prod_t)) x)
          (fmul (fsqrt (fsub (Fin 1) (Fin alpha_prod_t))) n)"

definition add_noise :: "scheduler \<Rightarrow> tensor \<Rightarrow> tensor \<Rightarrow> int list \<Rightarrow> error + tensor" where
  "add_noise sched latents noise timesteps =
     (case gather (alphas_cumprod sched) timesteps of
        Inl e \<Rightarrow> Inl e
      | Inr alpha_prod_t \<Rightarrow>
          if length alpha_prod_t = length latents \<and> shape4 noise = shape4 latents
          then Inr (map2 (\<lambda>a (x, n). smap2 (forward_entry a) x n)
                      alpha_prod_t (zip latents noise))
          else Inl ShapeError)"

text \<open>
  The formula of the spec for \<open>epsilon_to_sample\<close>, over the reals:
  \<open>pred_clean = (noisy_latent - sqrt(1 - alpha_prod[t]) * predicted_noise) / sqrt(alpha_prod[t])\<close>.
\<close>

definition pred_clean_spec :: "real \<Rightarrow> real \<Rightarrow> real \<Rightarrow> real" where
  "pred_clean_spec alpha_prod_t noisy_latent predicted_noise =
     (noisy_latent - sqrt (1 - alpha_prod_t) * predicted_noise) / sqrt alpha_prod_t"

text \<open>The timesteps index the schedule from the front, as every caller's do.\<close>

definition timesteps_in_range :: "scheduler \<Rightarrow> int list \<Rightarrow> bool" where
  "timesteps_in_range sched timesteps \<longleftrightarrow>
     (\<forall>t \<in> set timesteps. 0 \<le> t \<and> t < int (length (alphas_cumprod sched)))"

text \<open>
  The values of a noise schedule: \<open>alphas_cumprod\<close> is a running product of factors
  \<open>1 - beta\<close>, strictly positive and at most 1.
\<close>

definition schedule_values_ok :: "scheduler \<Rightarrow> bool" where
  "schedule_values_ok sched \<longleftrightarrow> (\<forall>a \<in> set (alphas_cumprod sched). 0 < a \<and> a \<le> 1)"

subsection \<open>Reductions and whole-tensor operations\<close>

definition tmap2 :: "('a \<Rightarrow> 'b \<Rightarrow> 'c) \<Rightarrow> 'a tensor4 \<Rightarrow> 'b tensor4 \<Rightarrow> 'c tensor4" where
  "tmap2 f a b = map2 (smap2 f) a b"

text \<open>All entries of a tensor.\<close>

definition tflat :: "'a tensor4 \<Rightarrow> 'a list" where
  "tflat t = concat (map flat t)"

definition zeros_like :: "tensor \<Rightarrow> tensor" where
  "zeros_like t = map (smap (\<lambda>_. Fin 0)) t"

definition fsum :: "flt list \<Rightarrow> flt" where
  "fsum xs = foldr fadd xs (Fin 0)"

text \<open>\<open>mean\<close>: the mean of no entries is \<open>0 / 0\<close>, NaN.\<close>

definition fmean :: "flt list \<Rightarrow> flt" where
  "fmean xs = fdiv (fsum xs) (Fin (real (length xs)))"

text \<open>\<open>F.mse_loss\<close> with its default reduction, the mean over all entries.\<close>

definition mse_loss :: "tensor \<Rightarrow> tensor \<Rightarrow> flt" where
  "mse_loss a b = fmean (tflat (tmap2 (\<lambda>x y. fmul (fsub x y) (fsub x y)) a b))"

text \<open>
  \<open>t.chunk(2)\<close> unpacked into two names. torch cuts dimension 0 into pieces of
  \<open>ceil(n / 2)\<close> entries: two pieces for \<open>n \<ge> 2\<close>, two empty pieces for \<open>n = 0\<close>, and a
  single piece for \<open>n = 1\<close>, which the unpacking rejects.
\<close>

definition chunk2 :: "'a list \<Rightarrow> error + ('a list \<times> 'a list)" where
  "chunk2 xs =
     (if length xs = 1 then Inl (ValueError ''not enough values to unpack (expected 2, got 1)'')
      else let k = (length xs + 1) div 2 in Inr (take k xs, drop k xs))"

text \<open>Python's \<open>int(x)\<close> of a float: truncation towards zero.\<close>

definition py_int :: "real \<Rightarrow> int" where
  "py_int x = (if 0 \<le> x then \<lfloor>x\<rfloor> else \<lceil>x\<rceil>)"

subsection \<open>Arguments, networks, \<open>generate\<close> and \<open>distribution_matching_loss\<close> (dmd/model.py)\<close>

text \<open>The command-line arguments the two source files read.\<close>

record train_args =
  min_dm_step_ratio :: real
  max_dm_step_ratio :: real
  guidance_scale :: real
  reg_loss_weight :: real
  snr_gamma :: "real option"
  max_grad_norm :: real
  gradient_checkpointing :: bool
  checkpointing_steps :: int
  checkpoints_total_limit :: "int option"
  max_train_steps :: int
  output_dir :: string
  resume_from_checkpoint :: "string option"

text \<open>
  Autograd, as far as the program depends on it. The three parameter sets are named by
  \<open>net\<close>. A tensor value carries \<open>leaves\<close>, the parameter sets a backward pass from it
  reaches: an operation in grad mode passes on the leaves of its operands, a network adds
  its own parameters when they require grad, and a value made under \<open>torch.no_grad()\<close> or
  by \<open>detach()\<close> has none.
\<close>

datatype net = Real | Fake | Student

record 'a tracked =
  val :: 'a
  leaves :: "net set"

definition no_graph :: "'a \<Rightarrow> 'a tracked" where
  "no_graph v = \<lparr>val = v, leaves = {}\<rparr>"

text \<open>
  A prompt embedding tensor \<open>[B, L, D]\<close>. A denoising network is the function from a
  latent, the timesteps and the embeddings to its \<open>.sample\<close> output, together with the
  parameter sets of it that require grad (none after \<open>requires_grad_(False)\<close>).
\<close>

type_synonym emb = "flt list list list"
type_synonym unet = "tensor \<Rightarrow> int list \<Rightarrow> emb \<Rightarrow> tensor"

record network =
  forward :: unet
  trainable :: "net set"

definition generate ::
  "network \<Rightarrow> scheduler \<Rightarrow> tensor tracked \<Rightarrow> emb tracked \<Rightarrow> error + tensor tracked" where
  "generate unet sched latents prompt_embeds =
     (let bsz = length (val latents);
          timesteps = replicate bsz (num_train_timesteps sched - 1);
          noise_pred = \<lparr>val = forward unet (val latents) timesteps (val prompt_embeds),
                        leaves = trainable unet \<union> leaves latents \<union> leaves prompt_embeds\<rparr>
      in case eps_to_mu sched (val noise_pred) (val latents) timesteps of
           Inl e \<Rightarrow> Inl e
         | Inr r \<Rightarrow> Inr \<lparr>val = r, leaves = leaves noise_pred \<union> leaves latents\<rparr>)"

text \<open>\<open>stopgrad\<close>, that is \<open>x.detach()\<close>: the same values, cut off from the graph.\<close>

definition stopgrad :: "'a tracked \<Rightarrow> 'a tracked" where
  "stopgrad x = \<lparr>val = val x, leaves = {}\<rparr>"

text \<open>
  Line 82: \<open>torch.abs(latents - pred_real_latents).mean(dim=[1, 2, 3], keepdim=True)\<close>, one
  scalar per sample.
\<close>

definition weighting_factor :: "tensor \<Rightarrow> tensor \<Rightarrow> flt list" where
  "weighting_factor latents pred_real_latents =
     map2 (\<lambda>l p. fmean (map fabs (flat (smap2 fsub l p)))) latents pred_real_latents"

text \<open>Line 84: \<open>(pred_fake_latents - pred_real_latents) / weighting_factor\<close>.\<close>

definition dm_grad :: "tensor \<Rightarrow> tensor \<Rightarrow> flt list \<Rightarrow> tensor" where
  "dm_grad pred_fake_latents pred_real_latents weighting =
     map2 (\<lambda>w (f, r). smap (\<lambda>x. fdiv x w) (smap2 fsub f r))
       weighting (zip pred_fake_latents pred_real_latents)"

text \<open>Line 78: \<open>noise_pred_uncond + guidance_scale * (noise_pred_text - noise_pred_uncond)\<close>.\<close>

definition guided :: "real \<Rightarrow> flt \<Rightarrow> flt \<Rightarrow> flt" where
  "guided scale uncond text = fadd uncond (fmul (Fin scale) (fsub text uncond))"

text \<open>
  Lines 57 to 80. The two random draws of lines 61 and 62, \<open>timestep\<close> and \<open>noise\<close>, are
  arguments of the model. \<open>torch.randint\<close> raises when its range is empty. The result is
  the pair \<open>(pred_fake_latents, pred_real_latents)\<close>; both networks run under
  \<open>torch.no_grad()\<close>, so only values are computed.
\<close>

definition dm_estimates ::
  "network \<Rightarrow> network \<Rightarrow> scheduler \<Rightarrow> tensor \<Rightarrow> emb \<Rightarrow> emb \<Rightarrow> train_args
     \<Rightarrow> int list \<Rightarrow> tensor \<Rightarrow> error + (tensor \<times> tensor)" where
  "dm_estimates real_unet fake_unet sched latents prompt_embeds negative_prompt_embeds args
       timestep noise =
     (let min_dm_step = py_int (real_of_int (num_train_timesteps sched) * min_dm_step_ratio args);
          max_dm_step = py_int (real_of_int (num_train_timesteps sched) * max_dm_step_ratio args)
      in if \<not> min_dm_step < max_dm_step
         then Inl (RuntimeError ''randint: from must be less than to'')
         else
      case add_noise sched latents noise timestep of
        Inl e \<Rightarrow> Inl e
      | Inr noisy_latents \<Rightarrow>
      (let noise_pred = forward fake_unet noisy_latents timestep prompt_embeds in
       case eps_to_mu sched noise_pred noisy_latents timestep of
         Inl e \<Rightarrow> Inl e
       | Inr pred_fake_latents \<Rightarrow>
       (let noisy_latents_input = noisy_latents @ noisy_latents;
            timestep_input = timestep @ timestep;
            prompt_embeds2 = negative_prompt_embeds @ prompt_embeds;
            noise_pred = forward real_unet noisy_latents_input timestep_input prompt_embeds2
        in case chunk2 noise_pred of
          Inl e \<Rightarrow> Inl e
        | Inr (noise_pred_uncond, noise_pred_text) \<Rightarrow>
            if shape4 noise_pred_text \<noteq> shape4 noise_pred_uncond then Inl ShapeError
            else
            (let noise_pred = tmap2 (guided (guidance_scale args))
                                noise_pred_uncond noise_pred_text
             in case eps_to_mu sched noise_pred noisy_latents timestep of
               Inl e \<Rightarrow> Inl e
             | Inr pred_real_latents \<Rightarrow> Inr (pred_fake_latents, pred_real_latents)))))"

text \<open>The weighting factor of line 82 inside a call of \<open>distribution_matching_loss\<close>.\<close>

definition dm_weighting_factor ::
  "network \<Rightarrow> network \<Rightarrow> scheduler \<Rightarrow> tensor \<Rightarrow> emb \<Rightarrow> emb \<Rightarrow> train_args
     \<Rightarrow> int list \<Rightarrow> tensor \<Rightarrow> error + flt list" where
  "dm_weighting_factor real_unet fake_unet sched latents prompt_embeds negative_prompt_embeds
       args timestep noise =
     (case dm_estimates real_unet fake_unet sched latents prompt_embeds negative_prompt_embeds
             args timestep noise of
        Inl e \<Rightarrow> Inl e
      | Inr (pred_fake_latents, pred_real_latents) \<Rightarrow>
          Inr (weighting_factor latents pred_real_latents))"

text \<open>
  Lines 57 to 86. The weighting factor and the pseudo-gradient are computed in grad mode
  from \<open>latents\<close> and carry its leaves; \<open>stopgrad\<close> removes them from the second
  argument of the loss.
\<close>

definition distribution_matching_loss ::
  "network \<Rightarrow> network \<Rightarrow> scheduler \<Rightarrow> tensor tracked \<Rightarrow> emb \<Rightarrow> emb \<Rightarrow> train_args
     \<Rightarrow> int list \<Rightarrow> tensor \<Rightarrow> error + flt tracked" where
  "distribution_matching_loss real_unet fake_unet sched latents prompt_embeds
       negative_prompt_embeds args timestep noise =
     (case dm_estimates real_unet fake_unet sched (val latents) prompt_embeds
             negative_prompt_embeds args timestep noise of
        Inl e \<Rightarrow> Inl e
      | Inr (pred_fake_latents, pred_real_latents) \<Rightarrow>
          (let weighting = \<lparr>val = weighting_factor (val latents) pred_real_latents,
                            leaves = leaves latents\<rparr>;
               grad = \<lparr>val = dm_grad pred_fake_latents pred_real_latents (val weighting),
                       leaves = leaves weighting\<rparr>;
               target = stopgrad \<lparr>val = tmap2 fsub (val latents) (val grad),
                                   leaves = leaves latents \<union> leaves grad\<rparr>;
               loss = \<lparr>val = mse_loss (val latents) (val target),
                       leaves = leaves latents \<union> leaves target\<rparr>
           in Inr loss))"

section \<open>The training script (train_dmd.py)\<close>

subsection \<open>Collaborators, state and the data of one iteration\<close>

text \<open>
  A parameter set is its list of weights; a gradient and an optimizer state are lists of
  numbers as well.
\<close>

type_synonym params = "real list"
type_synonym opt_state = "real list"

text \<open>
  What the libraries provide: the network architecture shared by the three U-Nets (a
  function of the weights), the frozen text encoder with its tokenizer, the VAE decoder, the
  LPIPS loss, the scheduler's \<open>get_velocity\<close>, diffusers' \<open>compute_snr\<close>, AdamW with its
  learning-rate schedule, gradient clipping, the accelerator's flags, the pretrained
  teacher, the content of the output directory at start, and \<open>accelerator.load_state\<close>
  (from a path and the fake and student parameters and optimizers to the loaded ones).
\<close>

record env =
  unet_forward :: "params \<Rightarrow> unet"
  encode_text :: "string list \<Rightarrow> emb"
  vae_decode :: "tensor \<Rightarrow> tensor"
  vae_scaling_factor :: real
  lpips :: "tensor \<Rightarrow> tensor \<Rightarrow> flt"
  get_velocity :: "scheduler \<Rightarrow> tensor \<Rightarrow> tensor \<Rightarrow> int list \<Rightarrow> tensor"
  compute_snr :: "scheduler \<Rightarrow> int list \<Rightarrow> flt list"
  adamw :: "opt_state \<Rightarrow> params \<Rightarrow> params \<Rightarrow> opt_state \<times> params"
  lr_step :: "opt_state \<Rightarrow> opt_state"
  clip_grad_norm :: "real \<Rightarrow> params \<Rightarrow> params"
  sync_gradients :: bool
  is_main_process :: bool
  pretrained_unet :: params
  pretrained_scheduler :: scheduler
  initial_optimizer :: opt_state
  initial_files :: "string list"
  load_state :: "string \<Rightarrow> params \<times> params \<times> opt_state \<times> opt_state
                   \<Rightarrow> params \<times> params \<times> opt_state \<times> opt_state"

text \<open>
  The mutable state of \<open>main\<close>: the three parameter sets, the \<open>.grad\<close> buffers of the two
  trained ones (\<open>None\<close> when unset), the two optimizers (with their learning-rate
  schedulers), the gradient-checkpointing flag of the fake network, \<open>global_step\<close>, the local
  variable \<open>loss\<close> (\<open>None\<close> while unbound), the entries of \<open>args.output_dir\<close>, the calls
  of \<open>accelerator.log\<close>, and the sequence of \<open>optimizer.step()\<close> calls made so far.
\<close>

record train_state =
  real_params :: params
  fake_params :: params
  student_params :: params
  fake_grad :: "params option"
  student_grad :: "params option"
  fake_optimizer :: opt_state
  student_optimizer :: opt_state
  fake_checkpointing :: bool
  global_step :: int
  loss_var :: "flt list option"
  output_files :: "string list"
  log_calls :: "((string \<times> flt) list \<times> int) list"
  optimizer_steps :: "net list"

text \<open>
  What one iteration draws: the two data batches, the random tensors and timesteps, and the
  gradients autograd computes for \<open>loss_g\<close> and \<open>loss_d\<close> with respect to a parameter set.
\<close>

record batch =
  prompts :: "string list"
  latents_ref :: tensor
  images_ref :: tensor
  prompts_ref :: "string list"
  latents_draw :: tensor
  dm_timestep_draw :: "int list"
  dm_noise_draw :: tensor
  noise_draw :: tensor
  timesteps_draw :: "int list"
  grad_g :: "net \<Rightarrow> params"
  grad_d :: "net \<Rightarrow> params"

text \<open>\<open>encode_prompt\<close> (dmd/model.py) runs under \<open>torch.no_grad()\<close>.\<close>

definition encode_prompt :: "env \<Rightarrow> string list \<Rightarrow> emb tracked" where
  "encode_prompt e captions = no_graph (encode_text e captions)"

text \<open>\<open>torch.cat([a, b], dim=0)\<close>\<close>

definition cat :: "'a list tracked \<Rightarrow> 'a list tracked \<Rightarrow> 'a list tracked" where
  "cat a b = \<lparr>val = val a @ val b, leaves = leaves a \<union> leaves b\<rparr>"

definition tmap :: "('a \<Rightarrow> 'b) \<Rightarrow> 'a tensor4 \<Rightarrow> 'b tensor4" where
  "tmap f = map (smap f)"

fun fclamp01 :: "flt \<Rightarrow> flt" where
  "fclamp01 (Fin x) = Fin (max 0 (min 1 x))"
| "fclamp01 NonFinite = NonFinite"

fun fmin :: "flt \<Rightarrow> flt \<Rightarrow> flt" where
  "fmin (Fin x) (Fin y) = Fin (min x y)"
| "fmin _ _ = NonFinite"

text \<open>\<open>loss.backward()\<close>: the gradient is added to the buffer of every leaf of the loss.\<close>

definition accumulate :: "params option \<Rightarrow> params \<Rightarrow> params option" where
  "accumulate buf g = (case buf of None \<Rightarrow> Some g | Some old \<Rightarrow> Some (map2 (+) old g))"

definition backward :: "(net \<Rightarrow> params) \<Rightarrow> 'a tracked \<Rightarrow> train_state \<Rightarrow> train_state" where
  "backward g loss s =
     s\<lparr>fake_grad := (if Fake \<in> leaves loss then accumulate (fake_grad s) (g Fake)
                      else fake_grad s),
       student_grad := (if Student \<in> leaves loss then accumulate (student_grad s) (g Student)
                         else student_grad s)\<rparr>"

text \<open>
  \<open>accelerator.clip_grad_norm_(unet.parameters(), args.max_grad_norm)\<close>, on the buffer of
  the named parameter set.
\<close>

fun clip_grads :: "env \<Rightarrow> train_args \<Rightarrow> net \<Rightarrow> train_state \<Rightarrow> train_state" where
  "clip_grads e args Student s =
     s\<lparr>student_grad := map_option (clip_grad_norm e (max_grad_norm args)) (student_grad s)\<rparr>"
| "clip_grads e args Fake s =
     s\<lparr>fake_grad := map_option (clip_grad_norm e (max_grad_norm args)) (fake_grad s)\<rparr>"
| "clip_grads e args Real s = s"

text \<open>
  \<open>optimizer.step()\<close> of the optimizer built over the parameters of one network
  (\<open>setup_optimizer_scheduler\<close>): it updates these parameters from their \<open>.grad\<close> buffers
  and skips parameters without a gradient. The teacher has no optimizer.
\<close>

fun optimizer_step :: "env \<Rightarrow> net \<Rightarrow> train_state \<Rightarrow> train_state" where
  "optimizer_step e Student s =
     (case student_grad s of
        None \<Rightarrow> s\<lparr>optimizer_steps := optimizer_steps s @ [Student]\<rparr>
      | Some g \<Rightarrow>
          (let (opt, p) = adamw e (student_optimizer s) (student_params s) g
           in s\<lparr>student_optimizer := opt, student_params := p,
                optimizer_steps := optimizer_steps s @ [Student]\<rparr>))"
| "optimizer_step e Fake s =
     (case fake_grad s of
        None \<Rightarrow> s\<lparr>optimizer_steps := optimizer_steps s @ [Fake]\<rparr>
      | Some g \<Rightarrow>
          (let (opt, p) = adamw e (fake_optimizer s) (fake_params s) g
           in s\<lparr>fake_optimizer := opt, fake_params := p,
                optimizer_steps := optimizer_steps s @ [Fake]\<rparr>))"
| "optimizer_step e Real s = s"

fun lr_scheduler_step :: "env \<Rightarrow> net \<Rightarrow> train_state \<Rightarrow> train_state" where
  "lr_scheduler_step e Student s = s\<lparr>student_optimizer := lr_step e (student_optimizer s)\<rparr>"
| "lr_scheduler_step e Fake s = s\<lparr>fake_optimizer := lr_step e (fake_optimizer s)\<rparr>"
| "lr_scheduler_step e Real s = s"

fun zero_grad :: "net \<Rightarrow> train_state \<Rightarrow> train_state" where
  "zero_grad Student s = s\<lparr>student_grad := None\<rparr>"
| "zero_grad Fake s = s\<lparr>fake_grad := None\<rparr>"
| "zero_grad Real s = s"

text \<open>
  Lines 381 to 386 and 433 to 438: backward, clipping when the accelerator synchronises
  gradients, the optimizer step, the learning-rate step, and the reset of the buffers.
\<close>

definition optimize ::
  "env \<Rightarrow> train_args \<Rightarrow> net \<Rightarrow> (net \<Rightarrow> params) \<Rightarrow> 'a tracked \<Rightarrow> train_state \<Rightarrow> train_state" where
  "optimize e args n g loss s =
     (let s1 = backward g loss s;
          s2 = (if sync_gradients e then clip_grads e args n s1 else s1);
          s3 = optimizer_step e n s2;
          s4 = lr_scheduler_step e n s3
      in zero_grad n s4)"

text \<open>The three networks as \<open>setup_model\<close> leaves them: only the teacher is frozen.\<close>

definition real_unet_of :: "env \<Rightarrow> train_state \<Rightarrow> network" where
  "real_unet_of e s = \<lparr>forward = unet_forward e (real_params s), trainable = {}\<rparr>"

definition fake_unet_of :: "env \<Rightarrow> train_state \<Rightarrow> network" where
  "fake_unet_of e s = \<lparr>forward = unet_forward e (fake_params s), trainable = {Fake}\<rparr>"

definition student_unet_of :: "env \<Rightarrow> train_state \<Rightarrow> network" where
  "student_unet_of e s = \<lparr>forward = unet_forward e (student_params s), trainable = {Student}\<rparr>"

subsection \<open>The student step (lines 354 to 386)\<close>

text \<open>
  What the student step hands to the rest of the iteration: the variables
  \<open>latents_pred_cat\<close>, \<open>prompt_embeds\<close> (after line 370) and \<open>loss_g\<close> (line 379).
\<close>

record student_out =
  latents_pred_cat :: "tensor tracked"
  prompt_embeds_cat :: "emb tracked"
  loss_g :: "flt tracked"

text \<open>
  A step returns the value it computed, or the exception it raised, and the state at that
  moment.
\<close>

definition student_step ::
  "env \<Rightarrow> scheduler \<Rightarrow> train_args \<Rightarrow> batch \<Rightarrow> train_state
     \<Rightarrow> (error + student_out) \<times> train_state" where
  "student_step e sched args bt s =
     (let s1 = (if gradient_checkpointing args then s\<lparr>fake_checkpointing := False\<rparr> else s);
          prompt_embeds = encode_prompt e (prompts bt);
          latents = no_graph (latents_draw bt)
      in case generate (student_unet_of e s1) sched latents prompt_embeds of
        Inl err \<Rightarrow> (Inl err, s1)
      | Inr latents_pred \<Rightarrow>
      (let prompt_ref_embeds = encode_prompt e (prompts_ref bt)
       in case generate (student_unet_of e s1) sched (no_graph (latents_ref bt))
                 prompt_ref_embeds of
         Inl err \<Rightarrow> (Inl err, s1)
       | Inr latents_ref_pred \<Rightarrow>
       (let latents_cat = cat latents_pred latents_ref_pred;
            embeds_cat = cat prompt_embeds prompt_ref_embeds;
            negative_prompt_embeds =
              encode_prompt e (replicate (length (prompts bt @ prompts_ref bt)) '''')
        in case distribution_matching_loss (real_unet_of e s1) (fake_unet_of e s1) sched
                  latents_cat (val embeds_cat) (val negative_prompt_embeds) args
                  (dm_timestep_draw bt) (dm_noise_draw bt) of
          Inl err \<Rightarrow> (Inl err, s1)
        | Inr loss_kl \<Rightarrow>
        (let decoded = vae_decode e
                         (tmap (\<lambda>x. fdiv x (Fin (vae_scaling_factor e))) (val latents_ref_pred));
             images_ref_pred =
               \<lparr>val = tmap (\<lambda>x. fclamp01 (fadd (fdiv x (Fin 2)) (Fin (1 / 2)))) decoded,
                leaves = leaves latents_ref_pred\<rparr>;
             loss_reg = \<lparr>val = lpips e (images_ref bt) (val images_ref_pred),
                         leaves = leaves images_ref_pred\<rparr>;
             generator_loss =
               \<lparr>val = fadd (val loss_kl) (fmul (val loss_reg) (Fin (reg_loss_weight args))),
                leaves = leaves loss_kl \<union> leaves loss_reg\<rparr>;
             s2 = optimize e args Student (grad_g bt) generator_loss s1
         in (Inr \<lparr>latents_pred_cat = latents_cat, prompt_embeds_cat = embeds_cat,
                   loss_g = generator_loss\<rparr>, s2)))))"

subsection \<open>The fake-score step (lines 388 to 438)\<close>

text \<open>Lines 405 to 410.\<close>

definition regression_target ::
  "env \<Rightarrow> scheduler \<Rightarrow> tensor tracked \<Rightarrow> tensor tracked \<Rightarrow> int list
     \<Rightarrow> error + tensor tracked" where
  "regression_target e sched latents noise timesteps =
     (if prediction_type sched = ''epsilon'' then Inr noise
      else if prediction_type sched = ''v_prediction''
      then Inr \<lparr>val = get_velocity e sched (val latents) (val noise) timesteps,
                leaves = leaves latents \<union> leaves noise\<rparr>
      else Inl (ValueError (''Unknown prediction type '' @ prediction_type sched)))"

text \<open>Lines 421 to 424: the SNR that the weights are computed from.\<close>

definition effective_snr :: "env \<Rightarrow> scheduler \<Rightarrow> int list \<Rightarrow> flt list" where
  "effective_snr e sched timesteps =
     (let snr = compute_snr e sched timesteps
      in if prediction_type sched = ''v_prediction'' then map (\<lambda>x. fadd x (Fin 1)) snr
         else snr)"

text \<open>
  Lines 425 to 427: \<open>stack([snr, snr_gamma * ones_like(timesteps)], dim=1).min(dim=1)[0] / snr\<close>.
\<close>

definition mse_loss_weights :: "flt list \<Rightarrow> real \<Rightarrow> int list \<Rightarrow> flt list" where
  "mse_loss_weights snr gamma timesteps =
     map2 (\<lambda>x g. fdiv (fmin x g) x) snr (map (\<lambda>_. Fin gamma) timesteps)"

text \<open>
  Line 429 and the first factor of line 430: the squared error, averaged over all dimensions
  but the first.
\<close>

definition per_sample_mse :: "tensor \<Rightarrow> tensor \<Rightarrow> flt list" where
  "per_sample_mse model_pred target =
     map2 (\<lambda>m t. fmean (flat (smap2 (\<lambda>x y. fmul (fsub x y) (fsub x y)) m t)))
       model_pred target"

text \<open>
  Lines 415 to 431. The result is \<open>loss_d\<close> and the value of the local variable \<open>loss\<close>
  afterwards: line 430 binds it only when \<open>snr_gamma\<close> is set. A \<open>compute_snr\<close> result
  that has not one entry per timestep and per sample is rejected (\<open>torch.stack\<close> and the
  product need matching sizes).
\<close>

definition fake_score_loss ::
  "env \<Rightarrow> scheduler \<Rightarrow> train_args \<Rightarrow> tensor tracked \<Rightarrow> tensor tracked \<Rightarrow> int list
     \<Rightarrow> flt list option \<Rightarrow> error + (flt tracked \<times> flt list option)" where
  "fake_score_loss e sched args model_pred target timesteps loss_before =
     (case snr_gamma args of
        None \<Rightarrow>
          Inr (\<lparr>val = mse_loss (val model_pred) (val target),
                leaves = leaves model_pred \<union> leaves target\<rparr>, loss_before)
      | Some gamma \<Rightarrow>
          (let snr = effective_snr e sched timesteps
           in if length snr = length timesteps \<and> length timesteps = length (val model_pred)
              then
              (let weights = mse_loss_weights snr gamma timesteps;
                   loss = map2 fmul (per_sample_mse (val model_pred) (val target)) weights
               in Inr (\<lparr>val = fmean loss, leaves = leaves model_pred \<union> leaves target\<rparr>,
                       Some loss))
              else Inl ShapeError))"

definition fake_step ::
  "env \<Rightarrow> scheduler \<Rightarrow> train_args \<Rightarrow> batch \<Rightarrow> student_out \<Rightarrow> train_state
     \<Rightarrow> (error + flt tracked) \<times> train_state" where
  "fake_step e sched args bt out s =
     (let s1 = (if gradient_checkpointing args then s\<lparr>fake_checkpointing := True\<rparr> else s);
          latents = stopgrad (latents_pred_cat out);
          encoder_hidden_states = stopgrad (prompt_embeds_cat out);
          noise = no_graph (noise_draw bt)
      in if num_train_timesteps sched \<le> 0
         then (Inl (RuntimeError ''randint: from must be less than to''), s1)
         else
      (let timesteps = timesteps_draw bt
       in case add_noise sched (val latents) (val noise) timesteps of
         Inl err \<Rightarrow> (Inl err, s1)
       | Inr noisy \<Rightarrow>
       (let noisy_latents = \<lparr>val = noisy, leaves = leaves latents \<union> leaves noise\<rparr>
        in case regression_target e sched latents noise timesteps of
          Inl err \<Rightarrow> (Inl err, s1)
        | Inr target \<Rightarrow>
        (let model_pred =
               \<lparr>val = forward (fake_unet_of e s1) (val noisy_latents) timesteps
                        (val encoder_hidden_states),
                leaves = trainable (fake_unet_of e s1) \<union> leaves noisy_latents
                           \<union> leaves encoder_hidden_states\<rparr>
         in if shape4 (val model_pred) \<noteq> shape4 (val target) then (Inl ShapeError, s1)
            else
            (case fake_score_loss e sched args model_pred target timesteps (loss_var s1) of
               Inl err \<Rightarrow> (Inl err, s1)
             | Inr (loss_d, loss_after) \<Rightarrow>
                 (let s2 = s1\<lparr>loss_var := loss_after\<rparr>;
                      s3 = optimize e args Fake (grad_d bt) loss_d s2
                  in (Inr loss_d, s3)))))))"

subsection \<open>Checkpoint names\<close>

definition starts_with :: "string \<Rightarrow> string \<Rightarrow> bool" where
  "starts_with s p \<longleftrightarrow> take (length p) s = p"

text \<open>\<open>s.split(c)\<close> for a one-character separator: never an empty list.\<close>

fun split_on :: "char \<Rightarrow> string \<Rightarrow> string list" where
  "split_on c [] = [[]]"
| "split_on c (x # xs) =
     (if x = c then [] # split_on c xs
      else (case split_on c xs of w # ws \<Rightarrow> (x # w) # ws | [] \<Rightarrow> [[x]]))"

definition digit_of :: "char \<Rightarrow> nat option" where
  "digit_of c = (let n = (of_char c :: nat) in if 48 \<le> n \<and> n \<le> 57 then Some (n - 48) else None)"

fun digits_value :: "nat \<Rightarrow> string \<Rightarrow> nat option" where
  "digits_value acc [] = Some acc"
| "digits_value acc (c # cs) =
     (case digit_of c of None \<Rightarrow> None | Some d \<Rightarrow> digits_value (10 * acc + d) cs)"

text \<open>
  \<open>int(s)\<close> for a string: an optional sign and decimal digits. Python also accepts
  surrounding white space and single underscores between digits; such strings, which the
  program never writes, are rejected here like every other malformed one.
\<close>

definition unsigned_of_str :: "string \<Rightarrow> error + int" where
  "unsigned_of_str s =
     (if s = [] then Inl (ValueError ''invalid literal for int()'')
      else (case digits_value 0 s of
              None \<Rightarrow> Inl (ValueError ''invalid literal for int()'')
            | Some n \<Rightarrow> Inr (int n)))"

definition py_int_of_str :: "string \<Rightarrow> error + int" where
  "py_int_of_str s =
     (case s of
        [] \<Rightarrow> Inl (ValueError ''invalid literal for int()'')
      | c # cs \<Rightarrow>
          if c = CHR ''-'' then (case unsigned_of_str cs of Inl e \<Rightarrow> Inl e | Inr n \<Rightarrow> Inr (- n))
          else if c = CHR ''+'' then unsigned_of_str cs
          else unsigned_of_str s)"

definition digit_char :: "nat \<Rightarrow> char" where
  "digit_char d = ''0123456789'' ! d"

function show_nat :: "nat \<Rightarrow> string" where
  "show_nat n = (if n < 10 then [digit_char n] else show_nat (n div 10) @ [digit_char (n mod 10)])"
  by pat_completeness auto
termination
  by (relation "measure id") auto

definition show_int :: "int \<Rightarrow> string" where
  "show_int i = (if i < 0 then CHR ''-'' # show_nat (nat (- i)) else show_nat (nat i))"

text \<open>The sort key of lines 340 and 450: \<open>int(x.split("-")[1])\<close>.\<close>

definition step_key :: "string \<Rightarrow> error + int" where
  "step_key x =
     (case split_on CHR ''-'' x of
        a # b # rest \<Rightarrow> py_int_of_str b
      | _ \<Rightarrow> Inl IndexError)"

fun step_keys :: "string list \<Rightarrow> error + int list" where
  "step_keys [] = Inr []"
| "step_keys (x # xs) =
     (case step_key x of
        Inl e \<Rightarrow> Inl e
      | Inr k \<Rightarrow> (case step_keys xs of Inl e \<Rightarrow> Inl e | Inr ks \<Rightarrow> Inr (k # ks)))"

text \<open>Lines 449 and 339: the entries of the output directory that are checkpoints.\<close>

definition checkpoint_names :: "string list \<Rightarrow> string list" where
  "checkpoint_names files = filter (\<lambda>d. starts_with d ''checkpoint'') files"

text \<open>
  Lines 448 to 450 (and 338 to 340): the checkpoints in ascending order of their step.
  \<open>sorted\<close> is stable and computes every key first.
\<close>

definition sorted_checkpoints :: "string list \<Rightarrow> error + string list" where
  "sorted_checkpoints files =
     (let checkpoints = checkpoint_names files
      in case step_keys checkpoints of
           Inl e \<Rightarrow> Inl e
         | Inr ks \<Rightarrow> Inr (map snd (sort_key fst (zip ks checkpoints))))"

text \<open>
  Lines 453 to 455: the checkpoints to remove before the save. \<open>num_to_remove\<close> is at
  least 1 where it is computed, so the slice \<open>checkpoints[0:num_to_remove]\<close> is a prefix.
\<close>

definition removing_checkpoints :: "string list \<Rightarrow> int \<Rightarrow> error + string list" where
  "removing_checkpoints files limit =
     (case sorted_checkpoints files of
        Inl e \<Rightarrow> Inl e
      | Inr checkpoints \<Rightarrow>
          if int (length checkpoints) \<ge> limit
          then (let num_to_remove = int (length checkpoints) - limit + 1
                in Inr (take (nat num_to_remove) checkpoints))
          else Inr [])"

text \<open>\<open>shutil.rmtree\<close> of an entry of the output directory, and \<open>accelerator.save_state\<close>.\<close>

definition rmtree :: "string \<Rightarrow> string list \<Rightarrow> string list" where
  "rmtree name files = removeAll name files"

definition save_state :: "string \<Rightarrow> string list \<Rightarrow> string list" where
  "save_state name files = (if name \<in> set files then files else files @ [name])"

subsection \<open>Checkpointing, logging, the loop and \<open>main\<close>\<close>

text \<open>Lines 445 to 466: the save at a checkpointing step, with the retention limit.\<close>

definition checkpoint_save :: "train_args \<Rightarrow> train_state \<Rightarrow> error option \<times> train_state" where
  "checkpoint_save args s =
     (case (case checkpoints_total_limit args of
              None \<Rightarrow> Inr []
            | Some limit \<Rightarrow> removing_checkpoints (output_files s) limit) of
        Inl e \<Rightarrow> (Some e, s)
      | Inr removing \<Rightarrow>
          (let files = fold rmtree removing (output_files s);
               save_path = ''checkpoint-'' @ show_int (global_step s)
           in (None, s\<lparr>output_files := save_state save_path files\<rparr>)))"

text \<open>Lines 441 to 466.\<close>

definition checkpoint_step ::
  "env \<Rightarrow> train_args \<Rightarrow> train_state \<Rightarrow> error option \<times> train_state" where
  "checkpoint_step e args s =
     (if sync_gradients e then
        (let s1 = s\<lparr>global_step := global_step s + 1\<rparr>
         in if is_main_process e then
              (if checkpointing_steps args = 0 then (Some ZeroDivisionError, s1)
               else if global_step s1 mod checkpointing_steps args = 0
               then checkpoint_save args s1
               else (None, s1))
            else (None, s1))
      else (None, s))"

text \<open>\<open>t.item()\<close> of a one-dimensional tensor: only a single entry converts to a scalar.\<close>

definition item :: "flt list \<Rightarrow> error + flt" where
  "item t =
     (case t of
        [x] \<Rightarrow> Inr x
      | _ \<Rightarrow> Inl (RuntimeError ''a Tensor with several elements cannot be converted to Scalar''))"

text \<open>
  Lines 472 to 474. The dictionary entry \<open>"loss_g"\<close> is computed from the local variable
  \<open>loss\<close>, first.
\<close>

definition log_step :: "flt tracked \<Rightarrow> train_state \<Rightarrow> error option \<times> train_state" where
  "log_step loss_d s =
     (case loss_var s of
        None \<Rightarrow> (Some (UnboundLocalError ''loss''), s)
      | Some loss \<Rightarrow>
          (case item loss of
             Inl e \<Rightarrow> (Some e, s)
           | Inr v \<Rightarrow>
               (let logs = [(''loss_g'', v), (''loss_d'', val loss_d)]
                in (None, s\<lparr>log_calls := log_calls s @ [(logs, global_step s)]\<rparr>))))"

text \<open>The body of the loop, lines 354 to 474.\<close>

definition train_iteration ::
  "env \<Rightarrow> scheduler \<Rightarrow> train_args \<Rightarrow> batch \<Rightarrow> train_state \<Rightarrow> error option \<times> train_state" where
  "train_iteration e sched args bt s =
     (case student_step e sched args bt s of
        (Inl err, s1) \<Rightarrow> (Some err, s1)
      | (Inr out, s1) \<Rightarrow>
          (case fake_step e sched args bt out s1 of
             (Inl err, s2) \<Rightarrow> (Some err, s2)
           | (Inr loss_d, s2) \<Rightarrow>
               (case checkpoint_step e args s2 of
                  (Some err, s3) \<Rightarrow> (Some err, s3)
                | (None, s3) \<Rightarrow> log_step loss_d s3)))"

text \<open>
  Lines 353 to 477: \<open>for step in range(args.max_train_steps)\<close> with the \<open>break\<close> of line
  476. The first argument counts the iterations that remain, the second is \<open>step\<close>.
\<close>

fun train_loop ::
  "nat \<Rightarrow> nat \<Rightarrow> env \<Rightarrow> scheduler \<Rightarrow> train_args \<Rightarrow> (nat \<Rightarrow> batch) \<Rightarrow> train_state
     \<Rightarrow> error option \<times> train_state" where
  "train_loop 0 step e sched args data s = (None, s)"
| "train_loop (Suc n) step e sched args data s =
     (case train_iteration e sched args (data step) s of
        (Some err, s1) \<Rightarrow> (Some err, s1)
      | (None, s1) \<Rightarrow>
          if global_step s1 \<ge> max_train_steps args then (None, s1)
          else train_loop n (Suc step) e sched args data s1)"

text \<open>The objects \<open>setup_model\<close> creates, and its return value, a tuple of seven of them.\<close>

datatype obj = UNet params | Scheduler scheduler | Tokenizer | TextEncoder | VAE

definition setup_model :: "env \<Rightarrow> train_args \<Rightarrow> obj list" where
  "setup_model e args =
     (let noise_scheduler = Scheduler (pretrained_scheduler e);
          tokenizer = Tokenizer;
          text_encoder = TextEncoder;
          vae = VAE;
          real_unet = UNet (pretrained_unet e);
          fake_unet = UNet (pretrained_unet e);
          student_unet = UNet (pretrained_unet e)
      in [real_unet, fake_unet, student_unet, noise_scheduler, tokenizer, text_encoder, vae])"

text \<open>Unpacking a tuple into eight names.\<close>

definition unpack8 ::
  "'a list \<Rightarrow> error + ('a \<times> 'a \<times> 'a \<times> 'a \<times> 'a \<times> 'a \<times> 'a \<times> 'a)" where
  "unpack8 xs =
     (case xs of
        [a, b, c, d, e, f, g, h] \<Rightarrow> Inr (a, b, c, d, e, f, g, h)
      | _ \<Rightarrow>
          if length xs < 8
          then Inl (ValueError (''not enough values to unpack (expected 8, got ''
                                 @ show_nat (length xs) @ '')''))
          else Inl (ValueError ''too many values to unpack (expected 8)''))"

text \<open>Lines 333 to 349.\<close>

definition basename :: "string \<Rightarrow> string" where
  "basename p = last (split_on CHR ''/'' p)"

definition resume :: "env \<Rightarrow> train_args \<Rightarrow> train_state \<Rightarrow> error + train_state" where
  "resume e args s =
     (case resume_from_checkpoint args of
        None \<Rightarrow> Inr s
      | Some r \<Rightarrow>
          if r = [] then Inr s
          else
          (case (if r \<noteq> ''latest'' then Inr (Some (basename r))
                 else (case sorted_checkpoints (output_files s) of
                         Inl err \<Rightarrow> Inl err
                       | Inr dirs \<Rightarrow> Inr (if dirs = [] then None else Some (last dirs)))) of
             Inl err \<Rightarrow> Inl err
           | Inr None \<Rightarrow> Inr s
           | Inr (Some path) \<Rightarrow>
               (let (fp, sp, fo, so) =
                      load_state e (output_dir args @ ''/'' @ path)
                        (fake_params s, student_params s, fake_optimizer s, student_optimizer s);
                    s1 = s\<lparr>fake_params := fp, student_params := sp,
                           fake_optimizer := fo, student_optimizer := so\<rparr>
                in case step_key path of
                     Inl err \<Rightarrow> Inl err
                   | Inr k \<Rightarrow> Inr (s1\<lparr>global_step := k\<rparr>))))"

text \<open>
  \<open>main\<close>, lines 292 to 488, with the stages it has entered. The preparation calls between
  the unpacking and the loop only wrap their arguments.
\<close>

datatype stage = Setup_training | Setup_model | Preparation | Resume | Training | End_training

definition main ::
  "env \<Rightarrow> train_args \<Rightarrow> (nat \<Rightarrow> batch) \<Rightarrow> stage list \<times> (error + train_state)" where
  "main e args data =
     (case unpack8 (setup_model e args) of
        Inl err \<Rightarrow> ([Setup_training, Setup_model], Inl err)
      | Inr (real_unet, fake_unet, student_unet, noise_scheduler, tokenizer, text_encoder,
             vae, small_vae) \<Rightarrow>
          (case (real_unet, fake_unet, student_unet, noise_scheduler) of
             (UNet rp, UNet fp, UNet sp, Scheduler sched) \<Rightarrow>
               (let s0 = \<lparr>real_params = rp, fake_params = fp, student_params = sp,
                          fake_grad = None, student_grad = None,
                          fake_optimizer = initial_optimizer e,
                          student_optimizer = initial_optimizer e,
                          fake_checkpointing = gradient_checkpointing args,
                          global_step = 0, loss_var = None,
                          output_files = initial_files e, log_calls = [],
                          optimizer_steps = []\<rparr>
                in case resume e args s0 of
                     Inl err \<Rightarrow> ([Setup_training, Setup_model, Preparation, Resume], Inl err)
                   | Inr s1 \<Rightarrow>
                       (case train_loop (nat (max_train_steps args)) 0 e sched args data s1 of
                          (Some err, s2) \<Rightarrow>
                            ([Setup_training, Setup_model, Preparation, Resume, Training],
                             Inl err)
                        | (None, s2) \<Rightarrow>
                            ([Setup_training, Setup_model, Preparation, Resume, Training,
                              End_training], Inr s2)))
           | _ \<Rightarrow> ([Setup_training, Setup_model, Preparation],
                   Inl (RuntimeError ''not a model''))))"

section \<open>Concrete inputs\<close>

text \<open>
  A two-step schedule whose square roots are rational: at timestep 1,
  \<open>sqrt (9/25) = 3/5\<close> and \<open>sqrt (1 - 9/25) = 4/5\<close>.
\<close>

definition ex_sched :: scheduler where
  "ex_sched = \<lparr>alphas_cumprod = [1, 9/25], num_train_timesteps = 2,
               prediction_type = ''epsilon''\<rparr>"

text \<open>One sample with one channel, one row and two entries.\<close>

definition ex_sample :: "real tensor4" where
  "ex_sample = [[[[5, 2]]]]"

definition ex_output :: "real tensor4" where
  "ex_output = [[[[5, 1/2]]]]"

definition ex_noise :: "real tensor4" where
  "ex_noise = [[[[1, 1]]]]"

text \<open>A network that returns a zero noise prediction of the shape of its input.\<close>

definition zero_unet :: network where
  "zero_unet = \<lparr>forward = (\<lambda>x t e. zeros_like x), trainable = {}\<rparr>"

text \<open>With the two-step schedule the distribution matching timestep range is \<open>[0, 2)\<close>.\<close>

definition ex_args :: train_args where
  "ex_args = \<lparr>min_dm_step_ratio = 0, max_dm_step_ratio = 1, guidance_scale = 1,
              reg_loss_weight = 1 / 4, snr_gamma = None, max_grad_norm = 1,
              gradient_checkpointing = False,
              checkpointing_steps = 1, checkpoints_total_limit = Some 2, max_train_steps = 1,
              output_dir = ''out'', resume_from_checkpoint = None\<rparr>"

text \<open>
  Collaborators for a run of one iteration: every network returns zeros, the text encoder
  returns an empty embedding per caption, the VAE decoder is the identity, LPIPS is
  constantly 2, the velocity is taken to be the latents, every SNR is 1, and the optimizer
  subtracts the gradient.
\<close>

definition ex_env :: env where
  "ex_env = \<lparr>unet_forward = (\<lambda>p x t c. zeros_like x),
             encode_text = (\<lambda>captions. map (\<lambda>c. []) captions),
             vae_decode = (\<lambda>x. x),
             vae_scaling_factor = 1,
             lpips = (\<lambda>a b. Fin 2),
             get_velocity = (\<lambda>sched l n t. l),
             compute_snr = (\<lambda>sched t. map (\<lambda>i. Fin 1) t),
             adamw = (\<lambda>opt p g. (opt, map2 (-) p g)),
             lr_step = (\<lambda>opt. opt),
             clip_grad_norm = (\<lambda>m g. g),
             sync_gradients = True,
             is_main_process = True,
             pretrained_unet = [0],
             pretrained_scheduler = ex_sched,
             initial_optimizer = [],
             initial_files = [],
             load_state = (\<lambda>path x. x)\<rparr>"

text \<open>
  One prompt and one reference sample. At timestep 1 the one-step generator maps the drawn
  latent \<open>[3, 6/5]\<close> to \<open>[5, 2]\<close>.
\<close>

definition ex_batch :: batch where
  "ex_batch = \<lparr>prompts = [''a photo''],
               latents_ref = [[[[Fin 3, Fin (6 / 5)]]]],
               images_ref = [[[[Fin 0, Fin 0]]]],
               prompts_ref = [''a cat''],
               latents_draw = [[[[Fin 3, Fin (6 / 5)]]]],
               dm_timestep_draw = [1, 1],
               dm_noise_draw = [[[[Fin 1, Fin 1]]], [[[Fin 1, Fin 1]]]],
               noise_draw = [[[[Fin 1, Fin 1]]], [[[Fin 1, Fin 1]]]],
               timesteps_draw = [1, 1],
               grad_g = (\<lambda>n. [1]),
               grad_d = (\<lambda>n. [2])\<rparr>"

definition ex_state :: train_state where
  "ex_state = \<lparr>real_params = [0], fake_params = [0], student_params = [0],
               fake_grad = None, student_grad = None,
               fake_optimizer = [], student_optimizer = [],
               fake_checkpointing = False, global_step = 0, loss_var = None,
               output_files = [], log_calls = [], optimizer_steps = []\<rparr>"

definition ex_out :: student_out where
  "ex_out = \<lparr>latents_pred_cat = \<lparr>val = [[[[Fin 5, Fin 2]]], [[[Fin 5, Fin 2]]]],
                                  leaves = {Student}\<rparr>,
             prompt_embeds_cat = \<lparr>val = [[], []], leaves = {}\<rparr>,
             loss_g = \<lparr>val = Fin (1 / 2), leaves = {Student}\<rparr>\<rparr>"

text \<open>
  An output directory with three checkpoints, listed out of order, and a log directory; the
  next checkpoint to be written is \<open>checkpoint-11\<close>.
\<close>

definition ex_files :: "string list" where
  "ex_files = [''checkpoint-10'', ''logs'', ''checkpoint-9'', ''checkpoint-2'']"

definition ex_saving_state :: train_state where
  "ex_saving_state = ex_state\<lparr>global_step := 11, output_files := ex_files\<rparr>"

section \<open>Properties of the diffusion arithmetic\<close>

lemma gather_in_range:
  "\<forall>t \<in> set ts. 0 \<le> t \<and> t < int (length xs) \<Longrightarrow> gather xs ts = Inr (map (\<lambda>t. xs ! nat t) ts)"
  by (induction ts) (auto simp: index_tensor_def Let_def)

lemma zip_map_eq_fst:
  "map f xs = map g ys \<Longrightarrow> (x, y) \<in> set (zip xs ys) \<Longrightarrow> f x = g y"
  by (metis in_set_zip nth_map length_map fst_conv snd_conv)

lemma map2_cancel:
  "length xs = length ys \<Longrightarrow> (\<And>x y. (x, y) \<in> set (zip xs ys) \<Longrightarrow> F (G x y) y = x)
   \<Longrightarrow> map2 F (map2 G xs ys) ys = xs"
  by (induction xs ys rule: list_induct2) auto

lemma smap2_cancel:
  assumes sh: "shape3 b = shape3 a" and pt: "\<And>x y. F (G x y) y = x"
  shows "smap2 F (smap2 G a b) b = a"
  unfolding smap2_def
proof (rule map2_cancel)
  show "length a = length b" using sh by (metis shape3_def length_map)
next
  fix x y assume xy: "(x, y) \<in> set (zip a b)"
  have ml: "map length x = map length y"
    using sh xy zip_map_eq_fst[of "map length" a "map length" b x y] by (simp add: shape3_def)
  show "map2 (map2 F) (map2 (map2 G) x y) y = x"
  proof (rule map2_cancel)
    show "length x = length y" using ml by (metis length_map)
  next
    fix u v assume uv: "(u, v) \<in> set (zip x y)"
    have "length u = length v" using ml uv zip_map_eq_fst[of length x length y u v] by simp
    then show "map2 F (map2 G u v) v = u"
      by (rule map2_cancel) (simp add: pt)
  qed
qed

lemma smap2_smap: "smap2 f (smap g a) (smap h b) = smap2 (\<lambda>x y. f (g x) (h y)) a b"
  unfolding smap2_def smap_def
  by (simp add: zip_map_map case_prod_beta comp_def)

lemma smap_smap2: "smap g (smap2 f a b) = smap2 (\<lambda>x y. g (f x y)) a b"
  unfolding smap2_def smap_def
  by (simp add: case_prod_beta comp_def)


lemma shape3_length: "shape3 b = shape3 a \<Longrightarrow> length b = length a"
  by (metis shape3_def length_map)

lemma shape3_nth_length:
  "shape3 b = shape3 a \<Longrightarrow> c < length a \<Longrightarrow> length (b ! c) = length (a ! c)"
  by (metis shape3_def length_map nth_map)

lemma shape3_nth_nth_length:
  "shape3 b = shape3 a \<Longrightarrow> c < length a \<Longrightarrow> h < length (a ! c)
   \<Longrightarrow> length (b ! c ! h) = length (a ! c ! h)"
proof -
  assume sh: "shape3 b = shape3 a" and c: "c < length a" and h: "h < length (a ! c)"
  have "map length (b ! c) = map length (a ! c)"
    using sh c shape3_length[OF sh] by (metis shape3_def nth_map)
  then show ?thesis using h by (metis length_map nth_map)
qed

lemma shape4_length: "shape4 b = shape4 a \<Longrightarrow> length b = length a"
  by (metis shape4_def length_map)

lemma shape4_nth: "shape4 b = shape4 a \<Longrightarrow> i < length a \<Longrightarrow> shape3 (b ! i) = shape3 (a ! i)"
  by (metis shape4_def length_map nth_map)

lemma shape3_smap [simp]: "shape3 (smap f a) = shape3 a"
  by (simp add: shape3_def smap_def comp_def)

lemma shape4_fin4 [simp]: "shape4 (fin4 x) = shape4 x"
  by (simp add: shape4_def fin4_def comp_def)

lemma length_fin4 [simp]: "length (fin4 x) = length x"
  by (simp add: fin4_def)

lemma shape3_smap2: "shape3 b = shape3 a \<Longrightarrow> shape3 (smap2 f a b) = shape3 a"
proof -
  assume sh: "shape3 b = shape3 a"
  have "map (map length) (map2 (map2 (map2 f)) a b) = map (map length) a"
  proof (rule nth_equalityI)
    show "length (map (map length) (map2 (map2 (map2 f)) a b)) = length (map (map length) a)"
      using shape3_length[OF sh] by simp
  next
    fix c assume "c < length (map (map length) (map2 (map2 (map2 f)) a b))"
    then have c: "c < length a" by simp
    have lc: "length (b ! c) = length (a ! c)" by (rule shape3_nth_length[OF sh c])
    have "map length (map2 (map2 f) (a ! c) (b ! c)) = map length (a ! c)"
    proof (rule nth_equalityI)
      show "length (map length (map2 (map2 f) (a ! c) (b ! c))) = length (map length (a ! c))"
        using lc by simp
    next
      fix h assume "h < length (map length (map2 (map2 f) (a ! c) (b ! c)))"
      then have h: "h < length (a ! c)" by simp
      show "map length (map2 (map2 f) (a ! c) (b ! c)) ! h = map length (a ! c) ! h"
        using h lc shape3_nth_nth_length[OF sh c h] by simp
    qed
    then show "map (map length) (map2 (map2 (map2 f)) a b) ! c = map (map length) a ! c"
      using c shape3_length[OF sh] by simp
  qed
  then show ?thesis by (simp add: shape3_def smap2_def)
qed

lemma smap2_nth:
  assumes sh: "shape3 b = shape3 a" and c: "c < length a" and h: "h < length (a ! c)"
    and w: "w < length (a ! c ! h)"
  shows "smap2 f a b ! c ! h ! w = f (a ! c ! h ! w) (b ! c ! h ! w)"
  using c h w shape3_length[OF sh] shape3_nth_length[OF sh c] shape3_nth_nth_length[OF sh c h]
  by (simp add: smap2_def)

lemma smap_nth:
  "c < length a \<Longrightarrow> h < length (a ! c) \<Longrightarrow> w < length (a ! c ! h)
   \<Longrightarrow> smap f a ! c ! h ! w = f (a ! c ! h ! w)"
  by (simp add: smap_def)

lemma real_sqrt_pos_ne0: "0 < a \<Longrightarrow> sqrt a \<noteq> 0"
  by simp

lemma forward_entry_Fin:
  "0 < a \<Longrightarrow> a \<le> 1 \<Longrightarrow>
   forward_entry a (Fin x) (Fin n) = Fin (sqrt a * x + sqrt (1 - a) * n)"
  by (simp add: forward_entry_def fadd_def fmul_def fsub_def)

lemma pred_original_Fin:
  "0 < a \<Longrightarrow> a \<le> 1 \<Longrightarrow> pred_original a (Fin x) (Fin out) = Fin (pred_clean_spec a x out)"
  by (simp add: pred_original_def pred_clean_spec_def fmul_def fsub_def)

lemma pred_clean_spec_forward:
  "0 < a \<Longrightarrow> pred_clean_spec a (sqrt a * x + sqrt (1 - a) * n) n = x"
  by (simp add: pred_clean_spec_def)

lemma forward_sample_Fin:
  "0 < a \<Longrightarrow> a \<le> 1 \<Longrightarrow>
   smap2 (forward_entry a) (smap Fin l) (smap Fin n)
     = smap Fin (smap2 (\<lambda>x n. sqrt a * x + sqrt (1 - a) * n) l n)"
  by (simp add: smap2_smap smap_smap2 forward_entry_Fin)

lemma pred_original_sample_Fin:
  "0 < a \<Longrightarrow> a \<le> 1 \<Longrightarrow>
   smap2 (pred_original a) (smap Fin x) (smap Fin out)
     = smap Fin (smap2 (pred_clean_spec a) x out)"
  by (simp add: smap2_smap smap_smap2 pred_original_Fin)

lemma roundtrip_sample:
  assumes "0 < a" "a \<le> 1" "shape3 n = shape3 l"
  shows "smap2 (pred_original a) (smap2 (forward_entry a) (smap Fin l) (smap Fin n)) (smap Fin n)
           = smap Fin l"
proof -
  have "smap2 (pred_clean_spec a) (smap2 (\<lambda>x n. sqrt a * x + sqrt (1 - a) * n) l n) n = l"
    using assms(3) by (rule smap2_cancel) (simp add: pred_clean_spec_forward assms(1))
  then show ?thesis
    using assms(1,2) by (simp add: forward_sample_Fin pred_original_sample_Fin)
qed


lemma batch_nth:
  "b < length as \<Longrightarrow> b < length X \<Longrightarrow> b < length Y \<Longrightarrow>
   map2 (\<lambda>a (x, y). F a x y) as (zip X Y) ! b = F (as ! b) (X ! b) (Y ! b)"
  by simp

lemma batch_length:
  "length as = length X \<Longrightarrow> length Y = length X \<Longrightarrow>
   length (map2 (\<lambda>a (x, y). F a x y) as (zip X Y)) = length X"
  by simp

lemma gathered_values_ok:
  assumes "schedule_values_ok sched" "timesteps_in_range sched timesteps" "b < length timesteps"
  shows "0 < alphas_cumprod sched ! nat (timesteps ! b) \<and> alphas_cumprod sched ! nat (timesteps ! b) \<le> 1"
proof -
  have "0 \<le> timesteps ! b \<and> timesteps ! b < int (length (alphas_cumprod sched))"
    using assms(2,3) by (simp add: timesteps_in_range_def)
  then have "alphas_cumprod sched ! nat (timesteps ! b) \<in> set (alphas_cumprod sched)"
    by (simp add: nat_less_iff)
  then show ?thesis using assms(1) by (simp add: schedule_values_ok_def)
qed

lemma fin4_nth: "b < length x \<Longrightarrow> fin4 x ! b = smap Fin (x ! b)"
  by (simp add: fin4_def)

lemma add_noise_fin4:
  assumes ok: "schedule_values_ok sched" and rg: "timesteps_in_range sched timesteps"
    and len: "length timesteps = length latent" and sh: "shape4 noise = shape4 latent"
  shows "add_noise sched (fin4 latent) (fin4 noise) timesteps =
    Inr (fin4 (map2 (\<lambda>a (x, n). smap2 (\<lambda>x n. sqrt a * x + sqrt (1 - a) * n) x n)
           (map (\<lambda>t. alphas_cumprod sched ! nat t) timesteps) (zip latent noise)))"
proof -
  let ?as = "map (\<lambda>t. alphas_cumprod sched ! nat t) timesteps"
  have g: "gather (alphas_cumprod sched) timesteps = Inr ?as"
    using rg by (simp add: gather_in_range timesteps_in_range_def)
  have ln: "length noise = length latent" by (rule shape4_length[OF sh])
  have "map2 (\<lambda>a (x, n). smap2 (forward_entry a) x n) ?as (zip (fin4 latent) (fin4 noise))
      = fin4 (map2 (\<lambda>a (x, n). smap2 (\<lambda>x n. sqrt a * x + sqrt (1 - a) * n) x n) ?as (zip latent noise))"
  proof (rule nth_equalityI)
    show "length (map2 (\<lambda>a (x, n). smap2 (forward_entry a) x n) ?as (zip (fin4 latent) (fin4 noise)))
       = length (fin4 (map2 (\<lambda>a (x, n). smap2 (\<lambda>x n. sqrt a * x + sqrt (1 - a) * n) x n) ?as (zip latent noise)))"
      by simp
  next
    fix b assume "b < length (map2 (\<lambda>a (x, n). smap2 (forward_entry a) x n) ?as (zip (fin4 latent) (fin4 noise)))"
    then have b: "b < length latent" "b < length noise" "b < length timesteps"
      using len ln by simp_all
    have a: "0 < alphas_cumprod sched ! nat (timesteps ! b) \<and> alphas_cumprod sched ! nat (timesteps ! b) \<le> 1"
      by (rule gathered_values_ok[OF ok rg b(3)])
    show "map2 (\<lambda>a (x, n). smap2 (forward_entry a) x n) ?as (zip (fin4 latent) (fin4 noise)) ! b
       = fin4 (map2 (\<lambda>a (x, n). smap2 (\<lambda>x n. sqrt a * x + sqrt (1 - a) * n) x n) ?as (zip latent noise)) ! b"
      using b a by (simp add: fin4_nth forward_sample_Fin)
  qed
  then show ?thesis using g len ln sh by (simp add: add_noise_def)
qed

lemma eps_to_mu_fin4:
  assumes ok: "schedule_values_ok sched" and rg: "timesteps_in_range sched timesteps"
    and len: "length timesteps = length sample" and sh: "shape4 model_output = shape4 sample"
  shows "eps_to_mu sched (fin4 model_output) (fin4 sample) timesteps =
    Inr (fin4 (map2 (\<lambda>a (x, out). smap2 (pred_clean_spec a) x out)
           (map (\<lambda>t. alphas_cumprod sched ! nat t) timesteps) (zip sample model_output)))"
proof -
  let ?as = "map (\<lambda>t. alphas_cumprod sched ! nat t) timesteps"
  have g: "gather (alphas_cumprod sched) timesteps = Inr ?as"
    using rg by (simp add: gather_in_range timesteps_in_range_def)
  have ln: "length model_output = length sample" by (rule shape4_length[OF sh])
  have "map2 (\<lambda>a (x, out). smap2 (pred_original a) x out) ?as (zip (fin4 sample) (fin4 model_output))
      = fin4 (map2 (\<lambda>a (x, out). smap2 (pred_clean_spec a) x out) ?as (zip sample model_output))"
  proof (rule nth_equalityI)
    show "length (map2 (\<lambda>a (x, out). smap2 (pred_original a) x out) ?as (zip (fin4 sample) (fin4 model_output)))
       = length (fin4 (map2 (\<lambda>a (x, out). smap2 (pred_clean_spec a) x out) ?as (zip sample model_output)))"
      by simp
  next
    fix b assume "b < length (map2 (\<lambda>a (x, out). smap2 (pred_original a) x out) ?as (zip (fin4 sample) (fin4 model_output)))"
    then have b: "b < length sample" "b < length model_output" "b < length timesteps"
      using len ln by simp_all
    have a: "0 < alphas_cumprod sched ! nat (timesteps ! b) \<and> alphas_cumprod sched ! nat (timesteps ! b) \<le> 1"
      by (rule gathered_values_ok[OF ok rg b(3)])
    show "map2 (\<lambda>a (x, out). smap2 (pred_original a) x out) ?as (zip (fin4 sample) (fin4 model_output)) ! b
       = fin4 (map2 (\<lambda>a (x, out). smap2 (pred_clean_spec a) x out) ?as (zip sample model_output)) ! b"
      using b a by (simp add: fin4_nth pred_original_sample_Fin)
  qed
  then show ?thesis using g len ln sh by (simp add: eps_to_mu_def)
qed

text \<open>
  Claim C4. For a schedule with values in \<open>(0, 1]\<close>, one in-range timestep per sample and
  a model output of the shape of the sample (all entries finite), \<open>eps_to_mu\<close> returns a
  tensor of the shape of the sample whose entry at every position \<open>[b, c, h, w]\<close> is
  \<open>(sample - sqrt (1 - alpha_prod[t_b]) * model_output) / sqrt (alpha_prod[t_b])\<close> at that
  position: the schedule scalar of sample \<open>b\<close> is used at all its positions. The result is a
  function of the four arguments alone.
\<close>

theorem eps_to_mu_formula:
  assumes ok: "schedule_values_ok sched" and rg: "timesteps_in_range sched timesteps"
    and len: "length timesteps = length sample" and sh: "shape4 model_output = shape4 sample"
  shows "\<exists>r. eps_to_mu sched (fin4 model_output) (fin4 sample) timesteps = Inr r
           \<and> shape4 r = shape4 sample
           \<and> (\<forall>b c h w. b < length sample \<and> c < length (sample ! b) \<and> h < length (sample ! b ! c)
                  \<and> w < length (sample ! b ! c ! h)
                \<longrightarrow> r ! b ! c ! h ! w =
                      Fin (pred_clean_spec (alphas_cumprod sched ! nat (timesteps ! b))
                             (sample ! b ! c ! h ! w) (model_output ! b ! c ! h ! w)))"
proof -
  let ?as = "map (\<lambda>t. alphas_cumprod sched ! nat t) timesteps"
  let ?r = "map2 (\<lambda>a (x, out). smap2 (pred_clean_spec a) x out) ?as (zip sample model_output)"
  have ln: "length model_output = length sample" by (rule shape4_length[OF sh])
  have e: "eps_to_mu sched (fin4 model_output) (fin4 sample) timesteps = Inr (fin4 ?r)"
    by (rule eps_to_mu_fin4[OF ok rg len sh])
  have lr: "length ?r = length sample" using len ln by simp
  have rb: "?r ! b = smap2 (pred_clean_spec (alphas_cumprod sched ! nat (timesteps ! b)))
                       (sample ! b) (model_output ! b)" if "b < length sample" for b
    using that len ln by simp
  have shr: "shape4 ?r = shape4 sample"
  proof -
    have "map shape3 ?r = map shape3 sample"
    proof (rule nth_equalityI)
      show "length (map shape3 ?r) = length (map shape3 sample)" using lr by simp
    next
      fix b assume "b < length (map shape3 ?r)"
      then have b: "b < length sample" using lr by simp
      have "shape3 (?r ! b) = shape3 (sample ! b)"
        unfolding rb[OF b] by (rule shape3_smap2) (rule shape4_nth[OF sh b])
      then show "map shape3 ?r ! b = map shape3 sample ! b"
        using b lr by simp
    qed
    then show ?thesis by (simp add: shape4_def)
  qed
  have ent: "fin4 ?r ! b ! c ! h ! w =
      Fin (pred_clean_spec (alphas_cumprod sched ! nat (timesteps ! b))
             (sample ! b ! c ! h ! w) (model_output ! b ! c ! h ! w))"
    if b: "b < length sample" and c: "c < length (sample ! b)" and h: "h < length (sample ! b ! c)"
      and w: "w < length (sample ! b ! c ! h)" for b c h w
  proof -
    have s3: "shape3 (model_output ! b) = shape3 (sample ! b)" by (rule shape4_nth[OF sh b])
    have s3r: "shape3 (?r ! b) = shape3 (sample ! b)"
      unfolding rb[OF b] by (rule shape3_smap2) (rule s3)
    have c': "c < length (?r ! b)" using c shape3_length[OF s3r] by simp
    have h': "h < length (?r ! b ! c)" using h shape3_nth_length[OF s3r c] by simp
    have w': "w < length (?r ! b ! c ! h)" using w shape3_nth_nth_length[OF s3r c h] by simp
    have "fin4 ?r ! b ! c ! h ! w = Fin (?r ! b ! c ! h ! w)"
      using b lr c' h' w' by (simp add: fin4_nth smap_nth)
    also have "?r ! b ! c ! h ! w = pred_clean_spec (alphas_cumprod sched ! nat (timesteps ! b))
             (sample ! b ! c ! h ! w) (model_output ! b ! c ! h ! w)"
      unfolding rb[OF b] by (rule smap2_nth[OF s3 c h w])
    finally show ?thesis .
  qed
  show ?thesis
    using e shr ent by (intro exI[of _ "fin4 ?r"]) simp
qed

text \<open>
  Claim C5. For a schedule with values in \<open>(0, 1]\<close>, in-range timesteps, and a clean latent
  and a noise tensor of one shape, the forward-diffused latent exists and \<open>eps_to_mu\<close>
  applied to it, with the same noise as the predicted noise, returns the clean latent.
\<close>

theorem forward_eps_to_mu_inverse:
  assumes ok: "schedule_values_ok sched" and rg: "timesteps_in_range sched timesteps"
    and len: "length timesteps = length latent" and sh: "shape4 noise = shape4 latent"
  shows "\<exists>noisy. add_noise sched (fin4 latent) (fin4 noise) timesteps = Inr noisy
           \<and> eps_to_mu sched (fin4 noise) noisy timesteps = Inr (fin4 latent)"
proof -
  let ?as = "map (\<lambda>t. alphas_cumprod sched ! nat t) timesteps"
  let ?n = "map2 (\<lambda>a (x, n). smap2 (\<lambda>x n. sqrt a * x + sqrt (1 - a) * n) x n) ?as (zip latent noise)"
  have ln: "length noise = length latent" by (rule shape4_length[OF sh])
  have a: "add_noise sched (fin4 latent) (fin4 noise) timesteps = Inr (fin4 ?n)"
    by (rule add_noise_fin4[OF ok rg len sh])
  have lnn: "length ?n = length latent" using len ln by simp
  have nb: "?n ! b = smap2 (\<lambda>x n. sqrt (alphas_cumprod sched ! nat (timesteps ! b)) * x
                          + sqrt (1 - alphas_cumprod sched ! nat (timesteps ! b)) * n)
                       (latent ! b) (noise ! b)" if "b < length latent" for b
    using that len ln by simp
  have shn: "shape4 noise = shape4 ?n"
  proof -
    have "map shape3 noise = map shape3 ?n"
    proof (rule nth_equalityI)
      show "length (map shape3 noise) = length (map shape3 ?n)" using lnn ln by simp
    next
      fix b assume "b < length (map shape3 noise)"
      then have b: "b < length latent" using ln by simp
      have s3: "shape3 (noise ! b) = shape3 (latent ! b)" by (rule shape4_nth[OF sh b])
      have "shape3 (?n ! b) = shape3 (latent ! b)"
        unfolding nb[OF b] by (rule shape3_smap2) (rule s3)
      then show "map shape3 noise ! b = map shape3 ?n ! b"
        using b lnn ln s3 by simp
    qed
    then show ?thesis by (simp add: shape4_def)
  qed
  have e: "eps_to_mu sched (fin4 noise) (fin4 ?n) timesteps =
      Inr (fin4 (map2 (\<lambda>a (x, out). smap2 (pred_clean_spec a) x out) ?as (zip ?n noise)))"
    using len lnn by (intro eps_to_mu_fin4[OF ok rg _ shn]) simp
  have "map2 (\<lambda>a (x, out). smap2 (pred_clean_spec a) x out) ?as (zip ?n noise) = latent"
  proof (rule nth_equalityI)
    show "length (map2 (\<lambda>a (x, out). smap2 (pred_clean_spec a) x out) ?as (zip ?n noise)) = length latent"
      using len ln by simp
  next
    fix b assume "b < length (map2 (\<lambda>a (x, out). smap2 (pred_clean_spec a) x out) ?as (zip ?n noise))"
    then have b: "b < length latent" using len ln by simp
    have bt: "b < length timesteps" using b len by simp
    have pos: "0 < alphas_cumprod sched ! nat (timesteps ! b)"
      using gathered_values_ok[OF ok rg bt] by simp
    have s3: "shape3 (noise ! b) = shape3 (latent ! b)" by (rule shape4_nth[OF sh b])
    have "smap2 (pred_clean_spec (alphas_cumprod sched ! nat (timesteps ! b)))
            (smap2 (\<lambda>x n. sqrt (alphas_cumprod sched ! nat (timesteps ! b)) * x
                          + sqrt (1 - alphas_cumprod sched ! nat (timesteps ! b)) * n)
               (latent ! b) (noise ! b)) (noise ! b) = latent ! b"
      using s3 by (rule smap2_cancel) (simp add: pred_clean_spec_forward pos)
    then show "map2 (\<lambda>a (x, out). smap2 (pred_clean_spec a) x out) ?as (zip ?n noise) ! b = latent ! b"
      using b len ln by simp
  qed
  then show ?thesis using a e by simp
qed

lemma sqrt_9_25: "sqrt (9 / 25) = 3 / 5"
  by (rule real_sqrt_unique) (simp_all add: power2_eq_square)

lemma sqrt_16_25: "sqrt (16 / 25) = 4 / 5"
  by (rule real_sqrt_unique) (simp_all add: power2_eq_square)

lemma ex_sched_ok: "schedule_values_ok ex_sched"
  by (simp add: schedule_values_ok_def ex_sched_def)

lemma ex_timesteps_ok: "timesteps_in_range ex_sched [1]"
  by (simp add: timesteps_in_range_def ex_sched_def)

theorem eps_to_mu_formula_witness:
  "schedule_values_ok ex_sched \<and> timesteps_in_range ex_sched [1]
   \<and> length [1::int] = length ex_sample \<and> shape4 ex_output = shape4 ex_sample
   \<and> (\<exists>r. eps_to_mu ex_sched (fin4 ex_output) (fin4 ex_sample) [1] = Inr r
          \<and> shape4 r = [[[2]]] \<and> r ! 0 ! 0 ! 0 ! 0 = Fin (5 / 3) \<and> r ! 0 ! 0 ! 0 ! 1 = Fin (8 / 3))"
proof -
  have len: "length [1::int] = length ex_sample" by (simp add: ex_sample_def)
  have sh: "shape4 ex_output = shape4 ex_sample"
    by (simp add: ex_output_def ex_sample_def shape4_def shape3_def)
  obtain r where r: "eps_to_mu ex_sched (fin4 ex_output) (fin4 ex_sample) [1] = Inr r"
      "shape4 r = shape4 ex_sample"
      "\<forall>b c h w. b < length ex_sample \<and> c < length (ex_sample ! b)
          \<and> h < length (ex_sample ! b ! c) \<and> w < length (ex_sample ! b ! c ! h)
        \<longrightarrow> r ! b ! c ! h ! w =
              Fin (pred_clean_spec (alphas_cumprod ex_sched ! nat ([1] ! b))
                     (ex_sample ! b ! c ! h ! w) (ex_output ! b ! c ! h ! w))"
    using eps_to_mu_formula[OF ex_sched_ok ex_timesteps_ok len sh] by blast
  have e0: "r ! 0 ! 0 ! 0 ! 0 = Fin (5 / 3)"
    using r(3)[rule_format, of 0 0 0 0]
    by (simp add: ex_sample_def ex_output_def ex_sched_def pred_clean_spec_def
        sqrt_9_25 sqrt_16_25)
  have e1: "r ! 0 ! 0 ! 0 ! 1 = Fin (8 / 3)"
    using r(3)[rule_format, of 0 0 0 1]
    by (simp add: ex_sample_def ex_output_def ex_sched_def pred_clean_spec_def
        sqrt_9_25 sqrt_16_25)
  have "shape4 r = [[[2]]]"
    using r(2) by (simp add: ex_sample_def shape4_def shape3_def)
  then show ?thesis
    using ex_sched_ok ex_timesteps_ok len sh r(1) e0 e1 by blast
qed

theorem forward_eps_to_mu_inverse_witness:
  "schedule_values_ok ex_sched \<and> timesteps_in_range ex_sched [1]
   \<and> length [1::int] = length ex_sample \<and> shape4 ex_output = shape4 ex_sample
   \<and> (\<exists>noisy. add_noise ex_sched (fin4 ex_sample) (fin4 ex_output) [1] = Inr noisy
          \<and> eps_to_mu ex_sched (fin4 ex_output) noisy [1] = Inr [[[[Fin 5, Fin 2]]]])"
proof -
  have len: "length [1::int] = length ex_sample" by (simp add: ex_sample_def)
  have sh: "shape4 ex_output = shape4 ex_sample"
    by (simp add: ex_output_def ex_sample_def shape4_def shape3_def)
  have f: "fin4 ex_sample = [[[[Fin 5, Fin 2]]]]"
    by (simp add: fin4_def smap_def ex_sample_def)
  show ?thesis
    using forward_eps_to_mu_inverse[OF ex_sched_ok ex_timesteps_ok len sh]
      ex_sched_ok ex_timesteps_ok len sh unfolding f by blast
qed

section \<open>Properties of the distribution matching loss\<close>

lemma flat_smap: "flat (smap f s) = map f (flat s)"
  by (simp add: flat_def smap_def map_concat comp_def)

lemma flat_nth_mem:
  "c < length s \<Longrightarrow> h < length (s ! c) \<Longrightarrow> w < length (s ! c ! h) \<Longrightarrow> s ! c ! h ! w \<in> set (flat s)"
  unfolding flat_def by (auto intro!: bexI[of _ "s ! c ! h"] bexI[of _ "s ! c"])

lemma flat_mem_nth:
  assumes "x \<in> set (flat s)"
  shows "\<exists>c h w. c < length s \<and> h < length (s ! c) \<and> w < length (s ! c ! h) \<and> x = s ! c ! h ! w"
proof -
  from assms obtain row chan where "x \<in> set row" "row \<in> set chan" "chan \<in> set s"
    unfolding flat_def by auto
  then show ?thesis by (metis in_set_conv_nth)
qed

lemma sample_neq_entry:
  assumes sh: "shape3 p = shape3 l" and ne: "l \<noteq> p"
  shows "\<exists>c h w. c < length l \<and> h < length (l ! c) \<and> w < length (l ! c ! h)
           \<and> l ! c ! h ! w \<noteq> p ! c ! h ! w"
proof (rule ccontr)
  assume a: "\<not> ?thesis"
  have "l = p"
  proof (rule nth_equalityI)
    show "length l = length p" using shape3_length[OF sh] by simp
  next
    fix c assume c: "c < length l"
    show "l ! c = p ! c"
    proof (rule nth_equalityI)
      show "length (l ! c) = length (p ! c)" using shape3_nth_length[OF sh c] by simp
    next
      fix h assume h: "h < length (l ! c)"
      show "l ! c ! h = p ! c ! h"
      proof (rule nth_equalityI)
        show "length (l ! c ! h) = length (p ! c ! h)"
          using shape3_nth_nth_length[OF sh c h] by simp
      next
        fix w assume "w < length (l ! c ! h)"
        then show "l ! c ! h ! w = p ! c ! h ! w" using a c h by blast
      qed
    qed
  qed
  then show False using ne by simp
qed

lemma fsum_Fin: "fsum (map Fin xs) = Fin (sum_list xs)"
  by (induction xs) (simp_all add: fsum_def fadd_def)

lemma fmean_Fin:
  "xs \<noteq> [] \<Longrightarrow> fmean (map Fin xs) = Fin (sum_list xs / real (length xs))"
  by (simp add: fmean_def fsum_Fin)

lemma abs_diff_sample:
  "map fabs (flat (smap2 fsub (smap Fin l) (smap Fin p)))
     = map Fin (map abs (flat (smap2 (-) l p)))"
proof -
  have "smap2 fsub (smap Fin l) (smap Fin p) = smap Fin (smap2 (-) l p)"
    by (simp add: smap2_smap smap_smap2 fsub_def)
  then show ?thesis by (simp add: flat_smap comp_def)
qed

lemma mean_abs_pos:
  assumes "d \<in> set ds" "d \<noteq> (0::real)"
  shows "0 < sum_list (map abs ds) / real (length ds)"
proof -
  have "(sum_list (map abs ds) = 0) = (\<forall>x \<in> set (map abs ds). x = 0)"
    by (rule sum_list_nonneg_eq_0_iff) auto
  then have "sum_list (map abs ds) \<noteq> 0"
    using assms by auto
  moreover have "0 \<le> sum_list (map abs ds)" by (rule sum_list_nonneg) auto
  ultimately have "0 < sum_list (map abs ds)" by simp
  moreover have "0 < length ds" using assms(1) by (cases ds) auto
  ultimately show ?thesis by simp
qed

lemma weighting_sample_pos:
  assumes sh: "shape3 p = shape3 l" and ne: "l \<noteq> p"
  shows "\<exists>w. fmean (map fabs (flat (smap2 fsub (smap Fin l) (smap Fin p)))) = Fin w \<and> 0 < w"
proof -
  let ?ds = "flat (smap2 (-) l p)"
  obtain c h w where i: "c < length l" "h < length (l ! c)" "w < length (l ! c ! h)"
      and d: "l ! c ! h ! w \<noteq> p ! c ! h ! w"
    using sample_neq_entry[OF sh ne] by blast
  have s2: "shape3 (smap2 (-) l p) = shape3 l" by (rule shape3_smap2[OF sh])
  have "smap2 (-) l p ! c ! h ! w \<in> set ?ds"
    using i shape3_length[OF s2] shape3_nth_length[OF s2 i(1)] shape3_nth_nth_length[OF s2 i(1,2)]
    by (intro flat_nth_mem) simp_all
  then have m: "l ! c ! h ! w - p ! c ! h ! w \<in> set ?ds"
    by (simp add: smap2_nth[OF sh i])
  have nz: "l ! c ! h ! w - p ! c ! h ! w \<noteq> 0" using d by simp
  have ne': "map abs ?ds \<noteq> []" using m by auto
  have "fmean (map fabs (flat (smap2 fsub (smap Fin l) (smap Fin p))))
      = Fin (sum_list (map abs ?ds) / real (length ?ds))"
    unfolding abs_diff_sample using fmean_Fin[OF ne'] by simp
  then show ?thesis using mean_abs_pos[OF m nz] by blast
qed

lemma weighting_factor_positive:
  assumes sh: "shape4 pred_real = shape4 latents" and b: "b < length latents"
    and ne: "latents ! b \<noteq> pred_real ! b"
  shows "\<exists>w. weighting_factor (fin4 latents) (fin4 pred_real) ! b = Fin w \<and> 0 < w
           \<and> (\<forall>x. fdiv (Fin x) (weighting_factor (fin4 latents) (fin4 pred_real) ! b) = Fin (x / w))"
proof -
  have lp: "length pred_real = length latents" by (rule shape4_length[OF sh])
  have wb: "weighting_factor (fin4 latents) (fin4 pred_real) ! b
      = fmean (map fabs (flat (smap2 fsub (smap Fin (latents ! b)) (smap Fin (pred_real ! b)))))"
    using b lp by (simp add: weighting_factor_def fin4_nth)
  obtain w where w: "fmean (map fabs (flat (smap2 fsub (smap Fin (latents ! b)) (smap Fin (pred_real ! b))))) = Fin w" "0 < w"
    using weighting_sample_pos[OF shape4_nth[OF sh b] ne] by blast
  show ?thesis
    unfolding wb using w by (intro exI[of _ w]) simp
qed

lemma shape4_batch:
  assumes la: "length as = length X" and sh: "shape4 Y = shape4 X"
  shows "shape4 (map2 (\<lambda>a (x, y). smap2 (F a) x y) as (zip X Y)) = shape4 X"
proof -
  let ?r = "map2 (\<lambda>a (x, y). smap2 (F a) x y) as (zip X Y)"
  have ly: "length Y = length X" by (rule shape4_length[OF sh])
  have "map shape3 ?r = map shape3 X"
  proof (rule nth_equalityI)
    show "length (map shape3 ?r) = length (map shape3 X)" using la ly by simp
  next
    fix b assume "b < length (map shape3 ?r)"
    then have b: "b < length X" using la ly by simp
    have "shape3 (smap2 (F (as ! b)) (X ! b) (Y ! b)) = shape3 (X ! b)"
      by (rule shape3_smap2) (rule shape4_nth[OF sh b])
    then show "map shape3 ?r ! b = map shape3 X ! b"
      using b la ly by simp
  qed
  then show ?thesis by (simp add: shape4_def)
qed

lemma eps_to_mu_shape:
  "eps_to_mu sched out smp ts = Inr r \<Longrightarrow> shape4 r = shape4 smp"
  by (auto simp: eps_to_mu_def shape4_batch split: sum.splits if_splits)

lemma add_noise_shape:
  "add_noise sched lat noise ts = Inr r \<Longrightarrow> shape4 r = shape4 lat"
  by (auto simp: add_noise_def shape4_batch split: sum.splits if_splits)

lemma dm_estimates_shapes:
  assumes "dm_estimates real_unet fake_unet sched latents pe npe args ts noise = Inr (pf, pr)"
  shows "shape4 pf = shape4 latents \<and> shape4 pr = shape4 latents"
  using assms
  by (auto simp: dm_estimates_def Let_def dest!: eps_to_mu_shape add_noise_shape
      split: sum.splits if_splits prod.splits)


lemma smap2_same: "smap2 f s s = smap (\<lambda>x. f x x) s"
  by (simp add: smap2_def smap_def zip_same_conv_map comp_def)

lemma smap2_fst:
  assumes sh: "shape3 b = shape3 a"
  shows "smap2 (\<lambda>x y. g x) a b = smap g a"
proof -
  have "map2 (map2 (map2 (\<lambda>x y. g x))) a b = map (map (map g)) a"
  proof (rule nth_equalityI)
    show "length (map2 (map2 (map2 (\<lambda>x y. g x))) a b) = length (map (map (map g)) a)"
      using shape3_length[OF sh] by simp
  next
    fix c assume "c < length (map2 (map2 (map2 (\<lambda>x y. g x))) a b)"
    then have c: "c < length a" by simp
    have lc: "length (b ! c) = length (a ! c)" by (rule shape3_nth_length[OF sh c])
    have "map2 (map2 (\<lambda>x y. g x)) (a ! c) (b ! c) = map (map g) (a ! c)"
    proof (rule nth_equalityI)
      show "length (map2 (map2 (\<lambda>x y. g x)) (a ! c) (b ! c)) = length (map (map g) (a ! c))"
        using lc by simp
    next
      fix h assume "h < length (map2 (map2 (\<lambda>x y. g x)) (a ! c) (b ! c))"
      then have h: "h < length (a ! c)" by simp
      have lh: "length (b ! c ! h) = length (a ! c ! h)"
        by (rule shape3_nth_nth_length[OF sh c h])
      have "map2 (\<lambda>x y. g x) (a ! c ! h) (b ! c ! h) = map g (a ! c ! h)"
        using lh by (intro nth_equalityI) simp_all
      then show "map2 (map2 (\<lambda>x y. g x)) (a ! c) (b ! c) ! h = map (map g) (a ! c) ! h"
        using h lc by simp
    qed
    then show "map2 (map2 (map2 (\<lambda>x y. g x))) a b ! c = map (map (map g)) a ! c"
      using c shape3_length[OF sh] by simp
  qed
  then show ?thesis by (simp add: smap2_def smap_def)
qed

lemma smap_id_on:
  assumes "\<forall>x \<in> set (flat s). f x = x"
  shows "smap f s = s"
  unfolding smap_def
proof (intro map_idI)
  fix chan row x assume "chan \<in> set s" "row \<in> set chan" "x \<in> set row"
  then have "x \<in> set (flat s)" unfolding flat_def by auto
  then show "f x = x" using assms by blast
qed

lemma smap_smap: "smap f (smap g s) = smap (\<lambda>x. f (g x)) s"
  by (simp add: smap_def comp_def)

lemma all_Fin_sample:
  assumes "\<forall>x \<in> set (flat s). x \<noteq> NonFinite"
  shows "\<exists>s0. s = smap Fin s0"
proof -
  have "smap (\<lambda>x. Fin (case x of Fin v \<Rightarrow> v | NonFinite \<Rightarrow> 0)) s = s"
  proof (rule smap_id_on, rule ballI)
    fix x assume "x \<in> set (flat s)"
    then have "x \<noteq> NonFinite" using assms by blast
    then show "Fin (case x of Fin v \<Rightarrow> v | NonFinite \<Rightarrow> 0) = x" by (cases x) simp_all
  qed
  then have "s = smap Fin (smap (\<lambda>x. case x of Fin v \<Rightarrow> v | NonFinite \<Rightarrow> 0) s)"
    by (simp add: smap_smap)
  then show ?thesis by blast
qed

lemma fsum_finite: "fsum xs = Fin s \<Longrightarrow> \<forall>x \<in> set xs. x \<noteq> NonFinite"
proof (induction xs arbitrary: s)
  case Nil
  then show ?case by simp
next
  case (Cons x xs)
  from Cons.prems have f: "fadd x (fsum xs) = Fin s" by (simp add: fsum_def)
  then obtain a b where "x = Fin a" "fsum xs = Fin b"
    by (cases x; cases "fsum xs") (simp_all add: fadd_def)
  then show ?case using Cons.IH by auto
qed

lemma fmean_finite:
  assumes "fmean xs = Fin r"
  shows "xs \<noteq> [] \<and> (\<forall>x \<in> set xs. x \<noteq> NonFinite)"
proof -
  from assms obtain s where s: "fsum xs = Fin s" and n: "real (length xs) \<noteq> 0"
    by (cases "fsum xs") (auto simp: fmean_def split: if_splits)
  show ?thesis using fsum_finite[OF s] n by auto
qed

lemma fsum_zeros: "\<forall>x \<in> set xs. x = Fin 0 \<Longrightarrow> fsum xs = Fin 0"
  by (induction xs) (simp_all add: fsum_def fadd_def)

lemma fmean_zeros: "xs \<noteq> [] \<Longrightarrow> \<forall>x \<in> set xs. x = Fin 0 \<Longrightarrow> fmean xs = Fin 0"
  by (simp add: fmean_def fsum_zeros)

lemma weight_finite_entries:
  assumes sh: "shape3 p = shape3 l"
    and w: "fmean (map fabs (flat (smap2 fsub l p))) = Fin r"
  shows "flat l \<noteq> [] \<and> (\<exists>l0 p0. l = smap Fin l0 \<and> p = smap Fin p0)"
proof -
  let ?d = "smap2 fsub l p"
  have s2: "shape3 ?d = shape3 l" by (rule shape3_smap2[OF sh])
  have ne: "flat ?d \<noteq> []" and fa: "\<forall>x \<in> set (flat ?d). fabs x \<noteq> NonFinite"
    using fmean_finite[OF w] by auto
  have df: "\<forall>x \<in> set (flat ?d). x \<noteq> NonFinite"
  proof
    fix x assume "x \<in> set (flat ?d)"
    then have "fabs x \<noteq> NonFinite" using fa by blast
    then show "x \<noteq> NonFinite" by (cases x) simp_all
  qed
  have ent: "fsub (l ! c ! h ! w) (p ! c ! h ! w) \<noteq> NonFinite"
    if i: "c < length l" "h < length (l ! c)" "w < length (l ! c ! h)" for c h w
  proof -
    have "?d ! c ! h ! w \<in> set (flat ?d)"
      using i shape3_length[OF s2] shape3_nth_length[OF s2 i(1)]
        shape3_nth_nth_length[OF s2 i(1,2)]
      by (intro flat_nth_mem) simp_all
    then show ?thesis using df by (simp add: smap2_nth[OF sh i])
  qed
  have lf: "\<forall>x \<in> set (flat l). x \<noteq> NonFinite"
  proof
    fix x assume xin: "x \<in> set (flat l)"
    from flat_mem_nth[OF xin]
    obtain c h w where i: "c < length l" "h < length (l ! c)" "w < length (l ! c ! h)"
        and x: "x = l ! c ! h ! w"
      by blast
    show "x \<noteq> NonFinite" using ent[OF i] unfolding x
      by (cases "l ! c ! h ! w") (simp_all add: fsub_def)
  qed
  have pf: "\<forall>x \<in> set (flat p). x \<noteq> NonFinite"
  proof
    fix x assume xin: "x \<in> set (flat p)"
    from flat_mem_nth[OF xin]
    obtain c h w where j: "c < length p" "h < length (p ! c)" "w < length (p ! c ! h)"
        and x: "x = p ! c ! h ! w"
      by blast
    have i: "c < length l" "h < length (l ! c)" "w < length (l ! c ! h)"
    proof -
      show c: "c < length l" using j(1) shape3_length[OF sh] by simp
      show h: "h < length (l ! c)" using j(2) shape3_nth_length[OF sh c] by simp
      show "w < length (l ! c ! h)" using j(3) shape3_nth_nth_length[OF sh c h] by simp
    qed
    show "x \<noteq> NonFinite" using ent[OF i] unfolding x
      by (cases "l ! c ! h ! w"; cases "p ! c ! h ! w") (simp_all add: fsub_def)
  qed
  have "flat l \<noteq> []"
  proof -
    obtain x where xin: "x \<in> set (flat ?d)" using ne by (cases "flat ?d") auto
    from flat_mem_nth[OF xin]
    obtain c h w where j: "c < length ?d" "h < length (?d ! c)" "w < length (?d ! c ! h)"
      by blast
    have c: "c < length l" using j(1) shape3_length[OF s2] by simp
    have h: "h < length (l ! c)" using j(2) shape3_nth_length[OF s2 c] by simp
    have w: "w < length (l ! c ! h)" using j(3) shape3_nth_nth_length[OF s2 c h] by simp
    have "l ! c ! h ! w \<in> set (flat l)" using c h w by (rule flat_nth_mem)
    then show ?thesis by auto
  qed
  then show ?thesis using all_Fin_sample[OF lf] all_Fin_sample[OF pf] by blast
qed

lemma chunk2_double: "chunk2 (xs @ xs) = Inr (xs, xs)"
proof -
  have "length (xs @ xs) \<noteq> 1" by (simp add: mult_2[symmetric])
  moreover have "(length (xs @ xs) + 1) div 2 = length xs" by simp
  ultimately show ?thesis by (simp add: chunk2_def Let_def del: length_append)
qed

lemma zeros_like_append: "zeros_like (a @ b) = zeros_like a @ zeros_like b"
  by (simp add: zeros_like_def)

lemma shape4_zeros_like [simp]: "shape4 (zeros_like x) = shape4 x"
  by (simp add: zeros_like_def shape4_def comp_def)

lemma guided_zeros:
  "tmap2 (guided 1) (zeros_like x) (zeros_like x) = zeros_like x"
proof -
  have "smap2 (guided 1) (smap (\<lambda>_. Fin 0) s) (smap (\<lambda>_. Fin 0) s) = smap (\<lambda>_. Fin 0) s" for s :: "flt sample"
    by (simp add: smap2_smap smap2_same smap_smap guided_def fadd_def fmul_def fsub_def)
  then show ?thesis
    by (simp add: tmap2_def zeros_like_def map2_map_map)
qed

lemma zero_nets_estimates:
  assumes fake: "\<forall>x t e. forward fake_unet x t e = zeros_like x"
    and real: "\<forall>x t e. forward real_unet x t e = zeros_like x"
    and gs: "guidance_scale args = 1"
    and est: "dm_estimates real_unet fake_unet sched latents pe npe args ts noise = Inr (pf, pr)"
  shows "pf = pr"
  using est
  by (auto simp: dm_estimates_def Let_def fake real gs zeros_like_append chunk2_double
      guided_zeros split: sum.splits if_splits)


lemma tflat_nonempty: "s \<in> set t \<Longrightarrow> flat s \<noteq> [] \<Longrightarrow> tflat t \<noteq> []"
  by (auto simp: tflat_def)

lemma zero_grad_sample:
  assumes sh: "shape3 p = shape3 l"
    and w: "fmean (map fabs (flat (smap2 fsub l p))) = Fin r" and r: "r \<noteq> 0"
  shows "smap2 fsub l (smap (\<lambda>x. fdiv x (Fin r)) (smap2 fsub p p)) = l"
    and "\<forall>x \<in> set (flat (smap2 (\<lambda>x y. fmul (fsub x y) (fsub x y)) l l)). x = Fin 0"
    and "flat (smap2 (\<lambda>x y. fmul (fsub x y) (fsub x y)) l l) \<noteq> []"
proof -
  from weight_finite_entries[OF sh w]
  obtain l0 p0 where ne: "flat l \<noteq> []" and l: "l = smap Fin l0" and p: "p = smap Fin p0"
    by blast
  have sh0: "shape3 p0 = shape3 l0" using sh by (simp add: l p)
  have "smap2 fsub l (smap (\<lambda>x. fdiv x (Fin r)) (smap2 fsub p p))
      = smap2 (\<lambda>x y. Fin x) l0 p0"
    using r by (simp add: l p smap2_same smap_smap smap2_smap fsub_def)
  also have "\<dots> = smap Fin l0" by (rule smap2_fst[OF sh0])
  finally show "smap2 fsub l (smap (\<lambda>x. fdiv x (Fin r)) (smap2 fsub p p)) = l"
    by (simp add: l)
  have sq: "smap2 (\<lambda>x y. fmul (fsub x y) (fsub x y)) l l = smap (\<lambda>_. Fin 0) l0"
    by (simp add: l smap2_same smap_smap fsub_def fmul_def)
  show "\<forall>x \<in> set (flat (smap2 (\<lambda>x y. fmul (fsub x y) (fsub x y)) l l)). x = Fin 0"
    by (auto simp: sq flat_smap)
  show "flat (smap2 (\<lambda>x y. fmul (fsub x y) (fsub x y)) l l) \<noteq> []"
    using ne unfolding sq by (simp add: l flat_smap)
qed

text \<open>
  Claim C1. When the fake network and the teacher network both return an all-zero noise
  prediction and \<open>guidance_scale = 1\<close>, then for a non-empty batch whose per-sample
  weighting factors are non-zero numbers, the fake and the real estimate coincide, the
  latents minus the pseudo-gradient are the latents, and \<open>distribution_matching_loss\<close>
  returns exactly 0.
\<close>

theorem dm_loss_zero_networks:
  assumes fake: "\<forall>x t e. forward fake_unet x t e = zeros_like x"
    and real: "\<forall>x t e. forward real_unet x t e = zeros_like x"
    and gs: "guidance_scale args = 1"
    and ne: "latents \<noteq> []"
    and wf: "dm_weighting_factor real_unet fake_unet sched latents pe npe args ts noise = Inr ws"
    and nz: "\<forall>w \<in> set ws. \<exists>r. w = Fin r \<and> r \<noteq> 0"
  shows "\<exists>pred loss.
             dm_estimates real_unet fake_unet sched latents pe npe args ts noise
               = Inr (pred, pred)
           \<and> tmap2 fsub latents (dm_grad pred pred ws) = latents
           \<and> distribution_matching_loss real_unet fake_unet sched
                 \<lparr>val = latents, leaves = ls\<rparr> pe npe args ts noise = Inr loss
           \<and> val loss = Fin 0"
proof -
  let ?sq = "\<lambda>x y. fmul (fsub x y) (fsub x y)"
  from wf obtain pf pr
    where est: "dm_estimates real_unet fake_unet sched latents pe npe args ts noise = Inr (pf, pr)"
      and ws: "ws = weighting_factor latents pr"
    by (auto simp: dm_weighting_factor_def split: sum.splits prod.splits)
  have eq: "pf = pr" by (rule zero_nets_estimates[OF fake real gs est])
  have sh: "shape4 pr = shape4 latents" using dm_estimates_shapes[OF est] by simp
  have lp: "length pr = length latents" by (rule shape4_length[OF sh])
  have lw: "length ws = length latents" using lp by (simp add: ws weighting_factor_def)
  have wb: "\<exists>r. fmean (map fabs (flat (smap2 fsub (latents ! b) (pr ! b)))) = Fin r \<and> r \<noteq> 0
              \<and> ws ! b = Fin r"
    if b: "b < length latents" for b
  proof -
    have "ws ! b \<in> set ws" using b lw by simp
    then obtain r where "ws ! b = Fin r" "r \<noteq> 0" using nz by blast
    moreover have "ws ! b = fmean (map fabs (flat (smap2 fsub (latents ! b) (pr ! b))))"
      using b lp by (simp add: ws weighting_factor_def)
    ultimately show ?thesis by simp
  qed
  let ?grad = "dm_grad pr pr ws"
  have lg: "length ?grad = length latents" using lw lp by (simp add: dm_grad_def)
  have tb: "smap2 fsub (latents ! b) (?grad ! b) = latents ! b" if b: "b < length latents" for b
  proof -
    obtain r where r: "fmean (map fabs (flat (smap2 fsub (latents ! b) (pr ! b)))) = Fin r"
        "r \<noteq> 0" "ws ! b = Fin r"
      using wb[OF b] by blast
    have "?grad ! b = smap (\<lambda>x. fdiv x (Fin r)) (smap2 fsub (pr ! b) (pr ! b))"
      using b lw lp r(3) by (simp add: dm_grad_def)
    then show ?thesis
      using zero_grad_sample(1)[OF shape4_nth[OF sh b] r(1,2)] by simp
  qed
  have target: "tmap2 fsub latents ?grad = latents"
    unfolding tmap2_def
  proof (rule nth_equalityI)
    show "length (map2 (smap2 fsub) latents ?grad) = length latents" using lg by simp
  next
    fix b assume "b < length (map2 (smap2 fsub) latents ?grad)"
    then have b: "b < length latents" by simp
    show "map2 (smap2 fsub) latents ?grad ! b = latents ! b"
      using b lg tb[OF b] by simp
  qed
  have zero: "\<forall>x \<in> set (tflat (tmap2 ?sq latents latents)). x = Fin 0"
  proof
    fix x assume "x \<in> set (tflat (tmap2 ?sq latents latents))"
    then obtain s where s: "s \<in> set (map2 (smap2 ?sq) latents latents)" and x: "x \<in> set (flat s)"
      by (auto simp: tflat_def tmap2_def)
    from s obtain b where b: "b < length latents" and sb: "s = smap2 ?sq (latents ! b) (latents ! b)"
      by (auto simp: in_set_conv_nth)
    obtain r where r: "fmean (map fabs (flat (smap2 fsub (latents ! b) (pr ! b)))) = Fin r"
        "r \<noteq> 0"
      using wb[OF b] by blast
    show "x = Fin 0"
      using zero_grad_sample(2)[OF shape4_nth[OF sh b] r] x unfolding sb by blast
  qed
  have nonempty: "tflat (tmap2 ?sq latents latents) \<noteq> []"
  proof -
    have b: "0 < length latents" using ne by simp
    obtain r where r: "fmean (map fabs (flat (smap2 fsub (latents ! 0) (pr ! 0)))) = Fin r"
        "r \<noteq> 0"
      using wb[OF b] by blast
    have fl: "flat (smap2 ?sq (latents ! 0) (latents ! 0)) \<noteq> []"
      by (rule zero_grad_sample(3)[OF shape4_nth[OF sh b] r])
    have "smap2 ?sq (latents ! 0) (latents ! 0) \<in> set (map2 (smap2 ?sq) latents latents)"
    proof -
      have "map2 (smap2 ?sq) latents latents ! 0 \<in> set (map2 (smap2 ?sq) latents latents)"
        using b by (intro nth_mem) simp
      then show ?thesis using b by simp
    qed
    then have "smap2 ?sq (latents ! 0) (latents ! 0) \<in> set (tmap2 ?sq latents latents)"
      by (simp add: tmap2_def)
    then show ?thesis using fl by (rule tflat_nonempty)
  qed
  have m: "mse_loss latents latents = Fin 0"
    unfolding mse_loss_def by (rule fmean_zeros[OF nonempty zero])
  have e: "dm_estimates real_unet fake_unet sched latents pe npe args ts noise = Inr (pr, pr)"
    using est eq by simp
  have "distribution_matching_loss real_unet fake_unet sched
            \<lparr>val = latents, leaves = ls\<rparr> pe npe args ts noise
          = Inr \<lparr>val = Fin 0, leaves = ls\<rparr>"
    using e target ws m
    by (simp add: distribution_matching_loss_def Let_def stopgrad_def)
  then show ?thesis
    using e target by (intro exI[of _ pr] exI[of _ "\<lparr>val = Fin 0, leaves = ls\<rparr>"]) simp
qed

lemma ex_add_noise:
  "add_noise ex_sched (fin4 ex_sample) (fin4 ex_noise) [1] = Inr [[[[Fin (19 / 5), Fin 2]]]]"
  by (simp add: add_noise_def ex_sched_def ex_sample_def ex_noise_def fin4_def smap_def
      index_tensor_def shape4_def shape3_def smap2_def forward_entry_def fadd_def fmul_def
      fsub_def sqrt_9_25 sqrt_16_25)

lemma ex_eps_to_mu_zero:
  "eps_to_mu ex_sched [[[[Fin 0, Fin 0]]]] [[[[Fin (19 / 5), Fin 2]]]] [1]
     = Inr [[[[Fin (19 / 3), Fin (10 / 3)]]]]"
  by (simp add: eps_to_mu_def ex_sched_def index_tensor_def shape4_def shape3_def smap2_def
      pred_original_def fmul_def fsub_def sqrt_9_25 sqrt_16_25)

lemma ex_dm_estimates:
  "dm_estimates zero_unet zero_unet ex_sched (fin4 ex_sample) [] [] ex_args [1] (fin4 ex_noise)
     = Inr (fin4 [[[[19 / 3, 10 / 3]]]], fin4 [[[[19 / 3, 10 / 3]]]])"
proof -
  have z: "zeros_like [[[[Fin (19 / 5), Fin 2]]]] = [[[[Fin 0, Fin 0]]]]"
    by (simp add: zeros_like_def smap_def)
  have r: "py_int (real_of_int (num_train_timesteps ex_sched) * min_dm_step_ratio ex_args) = 0"
      "py_int (real_of_int (num_train_timesteps ex_sched) * max_dm_step_ratio ex_args) = 2"
    by (simp_all add: py_int_def ex_sched_def ex_args_def)
  have g: "guidance_scale ex_args = 1" by (simp add: ex_args_def)
  have f: "fin4 [[[[19 / 3, 10 / 3]]]] = [[[[Fin (19 / 3), Fin (10 / 3)]]]]"
    by (simp add: fin4_def smap_def)
  have c: "chunk2 (zeros_like [[[[Fin (19 / 5), Fin 2]]], [[[Fin (19 / 5), Fin 2]]]])
      = Inr ([[[[Fin 0, Fin 0]]]], [[[[Fin 0, Fin 0]]]])"
    by (simp add: chunk2_def zeros_like_def smap_def)
  have t: "tmap2 (guided 1) [[[[Fin 0, Fin 0]]]] [[[[Fin 0, Fin 0]]]] = [[[[Fin 0, Fin 0]]]]"
    by (simp add: tmap2_def smap2_def guided_def fadd_def fmul_def fsub_def)
  show ?thesis
    unfolding dm_estimates_def r
    by (simp add: Let_def ex_add_noise zero_unet_def z c t g ex_eps_to_mu_zero f)
qed

lemma ex_weighting_factor:
  "weighting_factor (fin4 ex_sample) (fin4 [[[[19 / 3, 10 / 3]]]]) = [Fin (4 / 3)]"
  by (simp add: weighting_factor_def fin4_def smap_def ex_sample_def smap2_def flat_def
      fmean_def fsum_def fadd_def fsub_def)


lemma ex_dm_weighting_factor:
  "dm_weighting_factor zero_unet zero_unet ex_sched (fin4 ex_sample) [] [] ex_args [1]
     (fin4 ex_noise) = Inr [Fin (4 / 3)]"
  by (simp add: dm_weighting_factor_def ex_dm_estimates ex_weighting_factor)

theorem dm_loss_zero_networks_witness:
  "(\<forall>x t e. forward zero_unet x t e = zeros_like x) \<and> guidance_scale ex_args = 1
   \<and> fin4 ex_sample \<noteq> []
   \<and> dm_weighting_factor zero_unet zero_unet ex_sched (fin4 ex_sample) [] [] ex_args [1]
        (fin4 ex_noise) = Inr [Fin (4 / 3)]
   \<and> (\<exists>loss. distribution_matching_loss zero_unet zero_unet ex_sched
                 \<lparr>val = fin4 ex_sample, leaves = {Student}\<rparr> [] [] ex_args [1] (fin4 ex_noise)
               = Inr loss \<and> val loss = Fin 0)"
proof -
  have z: "\<forall>x t e. forward zero_unet x t e = zeros_like x" by (simp add: zero_unet_def)
  have g: "guidance_scale ex_args = 1" by (simp add: ex_args_def)
  have ne: "fin4 ex_sample \<noteq> []" by (simp add: fin4_def ex_sample_def)
  have nz: "\<forall>w \<in> set [Fin (4 / 3)]. \<exists>r. w = Fin r \<and> r \<noteq> 0"
    by (auto intro!: exI[of _ "4 / 3"])
  show ?thesis
    using dm_loss_zero_networks[OF z z g ne ex_dm_weighting_factor nz, of "{Student}"] z g ne
      ex_dm_weighting_factor by blast
qed

text \<open>
  Claim C10. In \<open>distribution_matching_loss\<close>, for a sample \<open>b\<close> whose (finite) latents
  differ from the (finite) real estimate in at least one entry, the weighting factor of
  line 82 is a strictly positive number \<open>w\<close>, so the division of line 84 by it is the
  division by \<open>w\<close> and not a division by zero.
\<close>

theorem dm_weighting_factor_positive:
  assumes est: "dm_estimates real_unet fake_unet sched (fin4 latents) pe npe args ts noise
                  = Inr (pred_fake, fin4 pred_real)"
    and b: "b < length latents" and ne: "latents ! b \<noteq> pred_real ! b"
  shows "\<exists>ws w. dm_weighting_factor real_unet fake_unet sched (fin4 latents) pe npe args ts noise
                   = Inr ws
           \<and> ws ! b = Fin w \<and> 0 < w \<and> (\<forall>x. fdiv (Fin x) (ws ! b) = Fin (x / w))"
proof -
  have "shape4 (fin4 pred_real) = shape4 (fin4 latents)"
    using dm_estimates_shapes[OF est] by simp
  then have sh: "shape4 pred_real = shape4 latents" by simp
  from weighting_factor_positive[OF sh b ne]
  obtain w where "weighting_factor (fin4 latents) (fin4 pred_real) ! b = Fin w" "0 < w"
      "\<forall>x. fdiv (Fin x) (weighting_factor (fin4 latents) (fin4 pred_real) ! b) = Fin (x / w)"
    by blast
  then show ?thesis
    using est by (simp add: dm_weighting_factor_def)
qed

theorem dm_weighting_factor_positive_witness:
  "dm_estimates zero_unet zero_unet ex_sched (fin4 ex_sample) [] [] ex_args [1] (fin4 ex_noise)
     = Inr (fin4 [[[[19 / 3, 10 / 3]]]], fin4 [[[[19 / 3, 10 / 3]]]])
   \<and> 0 < length ex_sample \<and> ex_sample ! 0 \<noteq> [[[19 / 3, 10 / 3]]]
   \<and> (\<exists>w. dm_weighting_factor zero_unet zero_unet ex_sched (fin4 ex_sample) [] [] ex_args [1]
             (fin4 ex_noise) = Inr [Fin w] \<and> 0 < w)"
proof -
  have b: "0 < length ex_sample" by (simp add: ex_sample_def)
  have ne: "ex_sample ! 0 \<noteq> [[[[19 / 3, 10 / 3]]]] ! 0" by (simp add: ex_sample_def)
  from dm_weighting_factor_positive[OF ex_dm_estimates b ne]
  obtain ws w where "dm_weighting_factor zero_unet zero_unet ex_sched (fin4 ex_sample) [] []
        ex_args [1] (fin4 ex_noise) = Inr ws" "ws ! 0 = Fin w" "0 < w"
    by blast
  then have "dm_weighting_factor zero_unet zero_unet ex_sched (fin4 ex_sample) [] []
        ex_args [1] (fin4 ex_noise) = Inr [Fin w] \<and> 0 < w"
    by (auto simp: ex_dm_weighting_factor)
  then show ?thesis using ex_dm_estimates b ne by auto
qed

section \<open>Properties of the training iteration\<close>

lemma optimize_Student_steps:
  "optimizer_steps (optimize e args Student g loss s) = optimizer_steps s @ [Student]"
  by (simp add: optimize_def Let_def backward_def split: option.splits prod.splits)

lemma optimize_Fake_steps:
  "optimizer_steps (optimize e args Fake g loss s) = optimizer_steps s @ [Fake]"
  by (simp add: optimize_def Let_def backward_def split: option.splits prod.splits)

lemma optimize_Fake_student:
  "student_params (optimize e args Fake g loss s) = student_params s"
  "student_optimizer (optimize e args Fake g loss s) = student_optimizer s"
  "Student \<notin> leaves loss \<Longrightarrow> student_grad (optimize e args Fake g loss s) = student_grad s"
  by (simp_all add: optimize_def Let_def backward_def split: option.splits prod.splits)

text \<open>
  What \<open>stopgrad\<close> prevents: a backward pass from a loss that has the student among its
  leaves writes the student's gradient buffer.
\<close>

lemma backward_student_leaf:
  "Student \<in> leaves loss
   \<Longrightarrow> student_grad (backward g loss s) = accumulate (student_grad s) (g Student)"
  by (simp add: backward_def)

lemma stopgrad_no_leaves: "leaves (stopgrad x) = {} \<and> val (stopgrad x) = val x"
  by (simp add: stopgrad_def)

lemma regression_target_leaves:
  "regression_target e sched latents noise ts = Inr t
   \<Longrightarrow> leaves t \<subseteq> leaves latents \<union> leaves noise"
  by (auto simp: regression_target_def split: if_splits)

lemma fake_score_loss_leaves:
  "fake_score_loss e sched args model_pred target ts lb = Inr (l, la)
   \<Longrightarrow> leaves l = leaves model_pred \<union> leaves target"
  by (auto simp: fake_score_loss_def Let_def split: option.splits if_splits)

lemma fake_step_cases:
  "(\<exists>err. fst (fake_step e sched args bt out s) = Inl err
        \<and> (snd (fake_step e sched args bt out s) = s
            \<or> snd (fake_step e sched args bt out s) = s\<lparr>fake_checkpointing := True\<rparr>))
   \<or> (\<exists>loss_d la. fst (fake_step e sched args bt out s) = Inr loss_d
        \<and> Student \<notin> leaves loss_d
        \<and> (snd (fake_step e sched args bt out s)
              = optimize e args Fake (grad_d bt) loss_d (s\<lparr>loss_var := la\<rparr>)
            \<or> snd (fake_step e sched args bt out s)
              = optimize e args Fake (grad_d bt) loss_d
                  (s\<lparr>fake_checkpointing := True, loss_var := la\<rparr>)))"
proof -
  let ?s1 = "if gradient_checkpointing args then s\<lparr>fake_checkpointing := True\<rparr> else s"
  let ?latents = "stopgrad (latents_pred_cat out)"
  let ?ehs = "stopgrad (prompt_embeds_cat out)"
  let ?noise = "no_graph (noise_draw bt) :: tensor tracked"
  have l0: "leaves ?latents = {}" "leaves ?ehs = {}" "leaves ?noise = {}"
    by (simp_all add: stopgrad_def no_graph_def)
  show ?thesis
  proof (cases "num_train_timesteps sched \<le> 0")
    case True
    then show ?thesis by (simp add: fake_step_def Let_def)
  next
    case T: False
    show ?thesis
    proof (cases "add_noise sched (val ?latents) (val ?noise) (timesteps_draw bt)")
      case (Inl err)
      then show ?thesis using T by (simp add: fake_step_def Let_def)
    next
      case (Inr noisy)
      show ?thesis
      proof (cases "regression_target e sched ?latents ?noise (timesteps_draw bt)")
        case (Inl err)
        then show ?thesis using T Inr by (simp add: fake_step_def Let_def)
      next
        case tg: (Inr target)
        have lt: "leaves target = {}"
          using regression_target_leaves[OF tg] l0 by simp
        let ?mp = "\<lparr>val = forward (fake_unet_of e ?s1) noisy (timesteps_draw bt) (val ?ehs),
                     leaves = trainable (fake_unet_of e ?s1)
                       \<union> (leaves ?latents \<union> leaves ?noise) \<union> leaves ?ehs\<rparr>"
        have lm: "leaves ?mp = {Fake}" using l0 by (simp add: fake_unet_of_def)
        show ?thesis
        proof (cases "shape4 (val ?mp) \<noteq> shape4 (val target)")
          case True
          then show ?thesis using T Inr tg by (simp add: fake_step_def Let_def)
        next
          case sh: False
          show ?thesis
          proof (cases "fake_score_loss e sched args ?mp target (timesteps_draw bt) (loss_var ?s1)")
            case (Inl err)
            then show ?thesis using T Inr tg sh by (simp add: fake_step_def Let_def)
          next
            case fl: (Inr r)
            obtain loss_d la where r: "r = (loss_d, la)" by (cases r)
            have "leaves loss_d = leaves ?mp \<union> leaves target"
              using fake_score_loss_leaves fl unfolding r by blast
            then have ns: "Student \<notin> leaves loss_d" using lm lt by simp
            show ?thesis
              using T Inr tg sh fl ns unfolding r
              by (auto simp: fake_step_def Let_def)
          qed
        qed
      qed
    qed
  qed
qed


lemma fake_step_student_fields:
  "student_params (snd (fake_step e sched args bt out s)) = student_params s"
  "student_grad (snd (fake_step e sched args bt out s)) = student_grad s"
  "student_optimizer (snd (fake_step e sched args bt out s)) = student_optimizer s"
  using fake_step_cases[of e sched args bt out s]
  by (auto simp: optimize_Fake_student)

lemma fake_step_steps:
  "optimizer_steps (snd (fake_step e sched args bt out s)) = optimizer_steps s
     \<and> (\<exists>err. fst (fake_step e sched args bt out s) = Inl err)
   \<or> optimizer_steps (snd (fake_step e sched args bt out s)) = optimizer_steps s @ [Fake]"
  using fake_step_cases[of e sched args bt out s]
  by (auto simp: optimize_Fake_steps)

lemma student_step_steps:
  "optimizer_steps (snd (student_step e sched args bt s)) = optimizer_steps s
     \<and> (\<exists>err. fst (student_step e sched args bt s) = Inl err)
   \<or> optimizer_steps (snd (student_step e sched args bt s)) = optimizer_steps s @ [Student]"
  by (auto simp: student_step_def Let_def optimize_Student_steps split: sum.splits)

lemma checkpoint_step_steps:
  "optimizer_steps (snd (checkpoint_step e args s)) = optimizer_steps s"
  by (auto simp: checkpoint_step_def checkpoint_save_def Let_def split: sum.splits option.splits)

lemma log_step_steps: "optimizer_steps (snd (log_step loss_d s)) = optimizer_steps s"
  by (auto simp: log_step_def Let_def split: sum.splits option.splits)

lemma train_iteration_steps:
  "\<exists>new. optimizer_steps (snd (train_iteration e sched args bt s)) = optimizer_steps s @ new
          \<and> (new = [] \<or> new = [Student] \<or> new = [Student, Fake])"
proof (cases "student_step e sched args bt s")
  case (Pair r1 s1)
  show ?thesis
  proof (cases r1)
    case (Inl err)
    then show ?thesis
      using Pair student_step_steps[of e sched args bt s]
      by (auto simp: train_iteration_def)
  next
    case (Inr out)
    have st: "optimizer_steps s1 = optimizer_steps s @ [Student]"
      using Pair Inr student_step_steps[of e sched args bt s] by auto
    show ?thesis
    proof (cases "fake_step e sched args bt out s1")
      case f: (Pair r2 s2)
      show ?thesis
      proof (cases r2)
        case (Inl err)
        have "optimizer_steps s2 = optimizer_steps s1 \<or> optimizer_steps s2 = optimizer_steps s1 @ [Fake]"
          using f fake_step_steps[of e sched args bt out s1] by auto
        then show ?thesis
          using Pair Inr f Inl st by (auto simp: train_iteration_def)
      next
        case r: (Inr loss_d)
        have fk: "optimizer_steps s2 = optimizer_steps s1 @ [Fake]"
          using f r fake_step_steps[of e sched args bt out s1] by auto
        have "optimizer_steps (snd (train_iteration e sched args bt s)) = optimizer_steps s2"
          using Pair Inr f r checkpoint_step_steps[of e args s2]
            log_step_steps[of loss_d "snd (checkpoint_step e args s2)"]
          by (auto simp: train_iteration_def split: prod.splits option.splits)
        then show ?thesis using st fk by simp
      qed
    qed
  qed
qed

text \<open>
  Claim C2. The fake-score step reads the student's predicted latents and the prompt
  embeddings through \<open>stopgrad\<close> only, so whatever their graphs, it leaves the student's
  weights, gradient buffers and optimizer state as they were; and the \<open>optimizer.step()\<close>
  calls of one iteration are none, the student's alone, or the student's followed by the
  fake network's.
\<close>

theorem fake_step_leaves_student_unchanged:
  "student_params (snd (fake_step e sched args bt out s)) = student_params s
   \<and> student_grad (snd (fake_step e sched args bt out s)) = student_grad s
   \<and> student_optimizer (snd (fake_step e sched args bt out s)) = student_optimizer s
   \<and> (\<exists>new. optimizer_steps (snd (train_iteration e sched args bt s)) = optimizer_steps s @ new
          \<and> (new = [] \<or> new = [Student] \<or> new = [Student, Fake]))"
  using fake_step_student_fields[of e sched args bt out s] train_iteration_steps[of e sched args bt s]
  by simp

lemma fake_step_Inr:
  assumes "fst (fake_step e sched args bt out s) = Inr loss_d"
  shows "\<exists>noisy target la.
           add_noise sched (val (latents_pred_cat out)) (noise_draw bt) (timesteps_draw bt)
             = Inr noisy
         \<and> regression_target e sched (stopgrad (latents_pred_cat out)) (no_graph (noise_draw bt))
             (timesteps_draw bt) = Inr target
         \<and> fake_score_loss e sched args
             \<lparr>val = unet_forward e (fake_params s) noisy (timesteps_draw bt)
                      (val (prompt_embeds_cat out)),
              leaves = {Fake}\<rparr>
             target (timesteps_draw bt) (loss_var s) = Inr (loss_d, la)"
  using assms
  by (auto simp: fake_step_def Let_def stopgrad_def no_graph_def fake_unet_of_def
      split: sum.splits if_splits prod.splits)

text \<open>
  Claim C8. The regression target of the fake-score step is the sampled noise when the
  scheduler's prediction type is \<open>epsilon\<close> and the velocity \<open>get_velocity(latents, noise,
  timesteps)\<close> when it is \<open>v_prediction\<close>. For any other prediction type the step raises
  (the \<open>ValueError\<close> of line 410 once the noise has been added), and at that moment it has
  made no optimizer step and changed no parameter, gradient buffer or optimizer state.
\<close>

theorem fake_step_regression_target:
  "(prediction_type sched = ''epsilon''
      \<longrightarrow> regression_target e sched latents noise ts = Inr noise
          \<and> (fst (fake_step e sched args bt out s) = Inr loss_d
              \<longrightarrow> (\<exists>noisy la.
                    add_noise sched (val (latents_pred_cat out)) (noise_draw bt)
                      (timesteps_draw bt) = Inr noisy
                  \<and> fake_score_loss e sched args
                      \<lparr>val = unet_forward e (fake_params s) noisy (timesteps_draw bt)
                               (val (prompt_embeds_cat out)),
                       leaves = {Fake}\<rparr>
                      (no_graph (noise_draw bt)) (timesteps_draw bt) (loss_var s)
                      = Inr (loss_d, la))))
   \<and> (prediction_type sched = ''v_prediction''
      \<longrightarrow> regression_target e sched latents noise ts
            = Inr \<lparr>val = get_velocity e sched (val latents) (val noise) ts,
                   leaves = leaves latents \<union> leaves noise\<rparr>
          \<and> (fst (fake_step e sched args bt out s) = Inr loss_d
              \<longrightarrow> (\<exists>noisy la.
                    add_noise sched (val (latents_pred_cat out)) (noise_draw bt)
                      (timesteps_draw bt) = Inr noisy
                  \<and> fake_score_loss e sched args
                      \<lparr>val = unet_forward e (fake_params s) noisy (timesteps_draw bt)
                               (val (prompt_embeds_cat out)),
                       leaves = {Fake}\<rparr>
                      \<lparr>val = get_velocity e sched (val (latents_pred_cat out)) (noise_draw bt)
                               (timesteps_draw bt),
                       leaves = {}\<rparr>
                      (timesteps_draw bt) (loss_var s)
                      = Inr (loss_d, la))))
   \<and> (prediction_type sched \<noteq> ''epsilon'' \<and> prediction_type sched \<noteq> ''v_prediction''
      \<longrightarrow> (\<exists>err. fst (fake_step e sched args bt out s) = Inl err)
          \<and> (0 < num_train_timesteps sched
               \<and> (\<exists>noisy. add_noise sched (val (latents_pred_cat out)) (noise_draw bt)
                             (timesteps_draw bt) = Inr noisy)
              \<longrightarrow> fst (fake_step e sched args bt out s)
                    = Inl (ValueError (''Unknown prediction type '' @ prediction_type sched)))
          \<and> fake_params (snd (fake_step e sched args bt out s)) = fake_params s
          \<and> student_params (snd (fake_step e sched args bt out s)) = student_params s
          \<and> fake_grad (snd (fake_step e sched args bt out s)) = fake_grad s
          \<and> student_grad (snd (fake_step e sched args bt out s)) = student_grad s
          \<and> fake_optimizer (snd (fake_step e sched args bt out s)) = fake_optimizer s
          \<and> student_optimizer (snd (fake_step e sched args bt out s)) = student_optimizer s
          \<and> optimizer_steps (snd (fake_step e sched args bt out s)) = optimizer_steps s)"
proof (intro conjI impI)
  assume "prediction_type sched = ''epsilon''"
  then show "regression_target e sched latents noise ts = Inr noise"
    by (simp add: regression_target_def)
next
  assume p: "prediction_type sched = ''epsilon''"
    and f: "fst (fake_step e sched args bt out s) = Inr loss_d"
  from fake_step_Inr[OF f] p
  show "\<exists>noisy la.
      add_noise sched (val (latents_pred_cat out)) (noise_draw bt) (timesteps_draw bt) = Inr noisy
    \<and> fake_score_loss e sched args
        \<lparr>val = unet_forward e (fake_params s) noisy (timesteps_draw bt)
                 (val (prompt_embeds_cat out)),
         leaves = {Fake}\<rparr>
        (no_graph (noise_draw bt)) (timesteps_draw bt) (loss_var s) = Inr (loss_d, la)"
    by (auto simp: regression_target_def)
next
  assume p: "prediction_type sched = ''v_prediction''"
    and f: "fst (fake_step e sched args bt out s) = Inr loss_d"
  from fake_step_Inr[OF f] p
  show "\<exists>noisy la.
      add_noise sched (val (latents_pred_cat out)) (noise_draw bt) (timesteps_draw bt) = Inr noisy
    \<and> fake_score_loss e sched args
        \<lparr>val = unet_forward e (fake_params s) noisy (timesteps_draw bt)
                 (val (prompt_embeds_cat out)),
         leaves = {Fake}\<rparr>
        \<lparr>val = get_velocity e sched (val (latents_pred_cat out)) (noise_draw bt)
                 (timesteps_draw bt),
         leaves = {}\<rparr>
        (timesteps_draw bt) (loss_var s) = Inr (loss_d, la)"
    by (auto simp: regression_target_def stopgrad_def no_graph_def)
next
  assume "prediction_type sched = ''v_prediction''"
  then show "regression_target e sched latents noise ts
      = Inr \<lparr>val = get_velocity e sched (val latents) (val noise) ts,
             leaves = leaves latents \<union> leaves noise\<rparr>"
    by (simp add: regression_target_def)
next
  assume u: "prediction_type sched \<noteq> ''epsilon'' \<and> prediction_type sched \<noteq> ''v_prediction''"
  have rt: "regression_target e sched l n t
      = Inl (ValueError (''Unknown prediction type '' @ prediction_type sched))" for l n t
    using u by (simp add: regression_target_def)
  show "\<exists>err. fst (fake_step e sched args bt out s) = Inl err"
    by (auto simp: fake_step_def Let_def rt split: sum.splits)
  show "fst (fake_step e sched args bt out s)
      = Inl (ValueError (''Unknown prediction type '' @ prediction_type sched))"
    if "0 < num_train_timesteps sched
        \<and> (\<exists>noisy. add_noise sched (val (latents_pred_cat out)) (noise_draw bt)
                      (timesteps_draw bt) = Inr noisy)"
    using that by (auto simp: fake_step_def Let_def rt stopgrad_def no_graph_def)
  show "fake_params (snd (fake_step e sched args bt out s)) = fake_params s"
    by (auto simp: fake_step_def Let_def rt split: sum.splits)
  show "student_params (snd (fake_step e sched args bt out s)) = student_params s"
    by (auto simp: fake_step_def Let_def rt split: sum.splits)
  show "fake_grad (snd (fake_step e sched args bt out s)) = fake_grad s"
    by (auto simp: fake_step_def Let_def rt split: sum.splits)
  show "student_grad (snd (fake_step e sched args bt out s)) = student_grad s"
    by (auto simp: fake_step_def Let_def rt split: sum.splits)
  show "fake_optimizer (snd (fake_step e sched args bt out s)) = fake_optimizer s"
    by (auto simp: fake_step_def Let_def rt split: sum.splits)
  show "student_optimizer (snd (fake_step e sched args bt out s)) = student_optimizer s"
    by (auto simp: fake_step_def Let_def rt split: sum.splits)
  show "optimizer_steps (snd (fake_step e sched args bt out s)) = optimizer_steps s"
    by (auto simp: fake_step_def Let_def rt split: sum.splits)
qed

lemma ex_add_noise2:
  "add_noise (ex_sched\<lparr>prediction_type := p\<rparr>) [[[[Fin 5, Fin 2]]], [[[Fin 5, Fin 2]]]]
     [[[[Fin 1, Fin 1]]], [[[Fin 1, Fin 1]]]] [1, 1]
   = Inr [[[[Fin (19 / 5), Fin 2]]], [[[Fin (19 / 5), Fin 2]]]]"
  by (simp add: add_noise_def ex_sched_def index_tensor_def shape4_def shape3_def smap2_def
      forward_entry_def fadd_def fmul_def fsub_def sqrt_9_25 sqrt_16_25)

lemma ex_fake_step_unknown:
  "fst (fake_step ex_env (ex_sched\<lparr>prediction_type := ''sample''\<rparr>) ex_args ex_batch ex_out ex_state)
     = Inl (ValueError ''Unknown prediction type sample'')"
  by (simp add: fake_step_def Let_def ex_args_def ex_batch_def ex_out_def stopgrad_def
      no_graph_def ex_add_noise2 regression_target_def)
    (simp add: ex_sched_def)

lemma ex_mse: "mse_loss [[[[Fin 0, Fin 0]]], [[[Fin 0, Fin 0]]]]
     [[[[Fin 1, Fin 1]]], [[[Fin 1, Fin 1]]]] = Fin 1"
  by (simp add: mse_loss_def tmap2_def smap2_def tflat_def flat_def fmean_def fsum_def
      fadd_def fsub_def fmul_def)

lemma ex_fake_step:
  "fake_step ex_env ex_sched ex_args ex_batch ex_out ex_state
     = (Inr \<lparr>val = Fin 1, leaves = {Fake}\<rparr>,
        ex_state\<lparr>fake_params := [- 2], optimizer_steps := [Fake]\<rparr>)"
proof -
  have a: "add_noise ex_sched [[[[Fin 5, Fin 2]]], [[[Fin 5, Fin 2]]]]
     [[[[Fin 1, Fin 1]]], [[[Fin 1, Fin 1]]]] [1, 1]
   = Inr [[[[Fin (19 / 5), Fin 2]]], [[[Fin (19 / 5), Fin 2]]]]"
    using ex_add_noise2[of "''epsilon''"] by (simp add: ex_sched_def)
  have p: "prediction_type ex_sched = ''epsilon''" "\<not> num_train_timesteps ex_sched \<le> 0"
    by (simp_all add: ex_sched_def)
  have z: "zeros_like [[[[Fin (19 / 5), Fin 2]]], [[[Fin (19 / 5), Fin 2]]]]
      = [[[[Fin 0, Fin 0]]], [[[Fin 0, Fin 0]]]]"
    by (simp add: zeros_like_def smap_def)
  show ?thesis
    unfolding fake_step_def Let_def
    by (simp add: p ex_args_def ex_batch_def ex_out_def stopgrad_def no_graph_def a
        regression_target_def fake_unet_of_def ex_env_def z shape4_def shape3_def
        fake_score_loss_def ex_mse optimize_def backward_def accumulate_def ex_state_def)
qed


lemma ex_mse_velocity: "mse_loss [[[[Fin 0, Fin 0]]], [[[Fin 0, Fin 0]]]]
     [[[[Fin 5, Fin 2]]], [[[Fin 5, Fin 2]]]] = Fin (29 / 2)"
  by (simp add: mse_loss_def tmap2_def smap2_def tflat_def flat_def fmean_def fsum_def
      fadd_def fsub_def fmul_def)

lemma ex_fake_step_velocity:
  "fst (fake_step ex_env (ex_sched\<lparr>prediction_type := ''v_prediction''\<rparr>) ex_args ex_batch
          ex_out ex_state)
     = Inr \<lparr>val = Fin (29 / 2), leaves = {Fake}\<rparr>"
proof -
  have p: "\<not> num_train_timesteps ex_sched \<le> 0"
    by (simp add: ex_sched_def)
  have z: "zeros_like [[[[Fin (19 / 5), Fin 2]]], [[[Fin (19 / 5), Fin 2]]]]
      = [[[[Fin 0, Fin 0]]], [[[Fin 0, Fin 0]]]]"
    by (simp add: zeros_like_def smap_def)
  show ?thesis
    unfolding fake_step_def Let_def
    by (simp add: p ex_args_def ex_batch_def ex_out_def stopgrad_def no_graph_def ex_add_noise2
        regression_target_def fake_unet_of_def ex_env_def z shape4_def shape3_def
        fake_score_loss_def ex_mse_velocity)
qed

theorem fake_step_regression_target_witness:
  "prediction_type ex_sched = ''epsilon''
   \<and> regression_target ex_env ex_sched (stopgrad (latents_pred_cat ex_out))
        (no_graph (noise_draw ex_batch)) [1, 1] = Inr (no_graph (noise_draw ex_batch))
   \<and> fst (fake_step ex_env ex_sched ex_args ex_batch ex_out ex_state)
        = Inr \<lparr>val = Fin 1, leaves = {Fake}\<rparr>
   \<and> (\<exists>noisy la.
         add_noise ex_sched (val (latents_pred_cat ex_out)) (noise_draw ex_batch)
           (timesteps_draw ex_batch) = Inr noisy
       \<and> fake_score_loss ex_env ex_sched ex_args
           \<lparr>val = unet_forward ex_env (fake_params ex_state) noisy (timesteps_draw ex_batch)
                    (val (prompt_embeds_cat ex_out)),
            leaves = {Fake}\<rparr>
           (no_graph (noise_draw ex_batch)) (timesteps_draw ex_batch) (loss_var ex_state)
           = Inr (\<lparr>val = Fin 1, leaves = {Fake}\<rparr>, la))
   \<and> prediction_type (ex_sched\<lparr>prediction_type := ''v_prediction''\<rparr>) = ''v_prediction''
   \<and> regression_target ex_env (ex_sched\<lparr>prediction_type := ''v_prediction''\<rparr>)
        (stopgrad (latents_pred_cat ex_out)) (no_graph (noise_draw ex_batch)) [1, 1]
        = Inr \<lparr>val = [[[[Fin 5, Fin 2]]], [[[Fin 5, Fin 2]]]], leaves = {}\<rparr>
   \<and> fst (fake_step ex_env (ex_sched\<lparr>prediction_type := ''v_prediction''\<rparr>) ex_args
            ex_batch ex_out ex_state)
        = Inr \<lparr>val = Fin (29 / 2), leaves = {Fake}\<rparr>
   \<and> (\<exists>noisy la.
         add_noise (ex_sched\<lparr>prediction_type := ''v_prediction''\<rparr>)
           (val (latents_pred_cat ex_out)) (noise_draw ex_batch) (timesteps_draw ex_batch)
           = Inr noisy
       \<and> fake_score_loss ex_env (ex_sched\<lparr>prediction_type := ''v_prediction''\<rparr>) ex_args
           \<lparr>val = unet_forward ex_env (fake_params ex_state) noisy (timesteps_draw ex_batch)
                    (val (prompt_embeds_cat ex_out)),
            leaves = {Fake}\<rparr>
           \<lparr>val = get_velocity ex_env (ex_sched\<lparr>prediction_type := ''v_prediction''\<rparr>)
                    (val (latents_pred_cat ex_out)) (noise_draw ex_batch)
                    (timesteps_draw ex_batch),
            leaves = {}\<rparr>
           (timesteps_draw ex_batch) (loss_var ex_state)
           = Inr (\<lparr>val = Fin (29 / 2), leaves = {Fake}\<rparr>, la))
   \<and> prediction_type (ex_sched\<lparr>prediction_type := ''sample''\<rparr>) \<noteq> ''epsilon''
   \<and> prediction_type (ex_sched\<lparr>prediction_type := ''sample''\<rparr>) \<noteq> ''v_prediction''
   \<and> 0 < num_train_timesteps (ex_sched\<lparr>prediction_type := ''sample''\<rparr>)
   \<and> add_noise (ex_sched\<lparr>prediction_type := ''sample''\<rparr>) (val (latents_pred_cat ex_out))
        (noise_draw ex_batch) (timesteps_draw ex_batch)
        = Inr [[[[Fin (19 / 5), Fin 2]]], [[[Fin (19 / 5), Fin 2]]]]
   \<and> fst (fake_step ex_env (ex_sched\<lparr>prediction_type := ''sample''\<rparr>) ex_args ex_batch ex_out
            ex_state)
        = Inl (ValueError ''Unknown prediction type sample'')
   \<and> fake_params (snd (fake_step ex_env (ex_sched\<lparr>prediction_type := ''sample''\<rparr>) ex_args
                         ex_batch ex_out ex_state)) = [0]
   \<and> student_params (snd (fake_step ex_env (ex_sched\<lparr>prediction_type := ''sample''\<rparr>) ex_args
                            ex_batch ex_out ex_state)) = [0]
   \<and> optimizer_steps (snd (fake_step ex_env (ex_sched\<lparr>prediction_type := ''sample''\<rparr>) ex_args
                             ex_batch ex_out ex_state)) = []"
proof -
  let ?l = "stopgrad (latents_pred_cat ex_out)"
  let ?n = "no_graph (noise_draw ex_batch)"
  let ?v = "ex_sched\<lparr>prediction_type := ''v_prediction''\<rparr>"
  let ?u = "ex_sched\<lparr>prediction_type := ''sample''\<rparr>"
  have pe: "prediction_type ex_sched = ''epsilon''" by (simp add: ex_sched_def)
  have fe: "fst (fake_step ex_env ex_sched ex_args ex_batch ex_out ex_state)
      = Inr \<lparr>val = Fin 1, leaves = {Fake}\<rparr>"
    by (simp add: ex_fake_step)
  have pv: "prediction_type ?v = ''v_prediction''" by simp
  have pu: "prediction_type ?u \<noteq> ''epsilon'' \<and> prediction_type ?u \<noteq> ''v_prediction''" by simp
  have tu: "0 < num_train_timesteps ?u" by (simp add: ex_sched_def)
  have au: "add_noise ?u (val (latents_pred_cat ex_out)) (noise_draw ex_batch)
      (timesteps_draw ex_batch) = Inr [[[[Fin (19 / 5), Fin 2]]], [[[Fin (19 / 5), Fin 2]]]]"
    by (simp add: ex_out_def ex_batch_def ex_add_noise2)
  note e = fake_step_regression_target[of ex_sched ex_env ?l ?n "[1, 1]" ex_args ex_batch
      ex_out ex_state "\<lparr>val = Fin 1, leaves = {Fake}\<rparr>"]
  note v = fake_step_regression_target[of ?v ex_env ?l ?n "[1, 1]" ex_args ex_batch
      ex_out ex_state "\<lparr>val = Fin (29 / 2), leaves = {Fake}\<rparr>"]
  note u = fake_step_regression_target[of ?u ex_env ?l ?n "[1, 1]" ex_args ex_batch
      ex_out ex_state "\<lparr>val = Fin 1, leaves = {Fake}\<rparr>"]
  have e1: "regression_target ex_env ex_sched ?l ?n [1, 1] = Inr ?n"
    using e pe by blast
  have e2: "\<exists>noisy la.
         add_noise ex_sched (val (latents_pred_cat ex_out)) (noise_draw ex_batch)
           (timesteps_draw ex_batch) = Inr noisy
       \<and> fake_score_loss ex_env ex_sched ex_args
           \<lparr>val = unet_forward ex_env (fake_params ex_state) noisy (timesteps_draw ex_batch)
                    (val (prompt_embeds_cat ex_out)),
            leaves = {Fake}\<rparr>
           ?n (timesteps_draw ex_batch) (loss_var ex_state)
           = Inr (\<lparr>val = Fin 1, leaves = {Fake}\<rparr>, la)"
    using e pe fe by blast
  have v1: "regression_target ex_env ?v ?l ?n [1, 1]
      = Inr \<lparr>val = [[[[Fin 5, Fin 2]]], [[[Fin 5, Fin 2]]]], leaves = {}\<rparr>"
    using v pv by (simp add: ex_env_def ex_out_def stopgrad_def no_graph_def)
  have fv: "fst (fake_step ex_env ?v ex_args ex_batch ex_out ex_state)
      = Inr \<lparr>val = Fin (29 / 2), leaves = {Fake}\<rparr>"
    by (rule ex_fake_step_velocity)
  have v2: "\<exists>noisy la.
         add_noise ?v (val (latents_pred_cat ex_out)) (noise_draw ex_batch)
           (timesteps_draw ex_batch) = Inr noisy
       \<and> fake_score_loss ex_env ?v ex_args
           \<lparr>val = unet_forward ex_env (fake_params ex_state) noisy (timesteps_draw ex_batch)
                    (val (prompt_embeds_cat ex_out)),
            leaves = {Fake}\<rparr>
           \<lparr>val = get_velocity ex_env ?v (val (latents_pred_cat ex_out)) (noise_draw ex_batch)
                    (timesteps_draw ex_batch),
            leaves = {}\<rparr>
           (timesteps_draw ex_batch) (loss_var ex_state)
           = Inr (\<lparr>val = Fin (29 / 2), leaves = {Fake}\<rparr>, la)"
    using v pv fv by blast
  have u1: "fst (fake_step ex_env ?u ex_args ex_batch ex_out ex_state)
      = Inl (ValueError ''Unknown prediction type sample'')"
    using u pu tu au by simp
  have u2: "fake_params (snd (fake_step ex_env ?u ex_args ex_batch ex_out ex_state)) = [0]"
     "student_params (snd (fake_step ex_env ?u ex_args ex_batch ex_out ex_state)) = [0]"
     "optimizer_steps (snd (fake_step ex_env ?u ex_args ex_batch ex_out ex_state)) = []"
    using u pu by (simp_all add: ex_state_def)
  show ?thesis
    using pe e1 fe e2 pv v1 fv v2 pu tu au u1 u2 by blast
qed

lemma optimize_keeps:
  "loss_var (optimize e args n g loss s) = loss_var s"
  "log_calls (optimize e args n g loss s) = log_calls s"
  "global_step (optimize e args n g loss s) = global_step s"
  "output_files (optimize e args n g loss s) = output_files s"
  by (cases n; simp add: optimize_def Let_def backward_def split: option.splits prod.splits)+

lemma student_step_keeps:
  "loss_var (snd (student_step e sched args bt s)) = loss_var s"
  "log_calls (snd (student_step e sched args bt s)) = log_calls s"
  by (auto simp: student_step_def Let_def optimize_keeps split: sum.splits)

lemma fake_step_keeps_log:
  "log_calls (snd (fake_step e sched args bt out s)) = log_calls s"
  by (auto simp: fake_step_def Let_def optimize_keeps split: sum.splits prod.splits)

lemma fake_step_keeps_loss_var:
  "snr_gamma args = None \<Longrightarrow> loss_var (snd (fake_step e sched args bt out s)) = loss_var s"
  by (auto simp: fake_step_def Let_def optimize_keeps fake_score_loss_def
      split: sum.splits prod.splits)

lemma checkpoint_step_keeps:
  "loss_var (snd (checkpoint_step e args s)) = loss_var s"
  "log_calls (snd (checkpoint_step e args s)) = log_calls s"
  by (auto simp: checkpoint_step_def checkpoint_save_def Let_def split: sum.splits option.splits)

lemma log_step_unbound:
  "loss_var s = None \<Longrightarrow> log_step loss_d s = (Some (UnboundLocalError ''loss''), s)"
  by (simp add: log_step_def)

text \<open>
  Claim C7 (what the code does instead). The entry \<open>"loss_g"\<close> of the logs is read from the
  local variable \<open>loss\<close>, not from \<open>loss_g\<close>. When \<open>snr_gamma\<close> is not set, nothing binds
  \<open>loss\<close>: an iteration that starts with \<open>loss\<close> unbound raises and logs nothing, and if its
  three steps before the logging succeed, the exception is the \<open>UnboundLocalError\<close> of line
  472.
\<close>

theorem train_iteration_logs_nothing:
  assumes "snr_gamma args = None" and "loss_var s = None"
  shows "fst (train_iteration e sched args bt s) \<noteq> None
    \<and> log_calls (snd (train_iteration e sched args bt s)) = log_calls s
    \<and> (\<forall>out s1 loss_d s2 s3.
          student_step e sched args bt s = (Inr out, s1)
          \<and> fake_step e sched args bt out s1 = (Inr loss_d, s2)
          \<and> checkpoint_step e args s2 = (None, s3)
        \<longrightarrow> train_iteration e sched args bt s = (Some (UnboundLocalError ''loss''), s3))"
proof (cases "student_step e sched args bt s")
  case (Pair r1 s1)
  have v1: "loss_var s1 = None" "log_calls s1 = log_calls s"
    using Pair student_step_keeps[of e sched args bt s] assms(2) by simp_all
  show ?thesis
  proof (cases r1)
    case (Inl err)
    then show ?thesis using Pair v1 by (simp add: train_iteration_def)
  next
    case (Inr out)
    show ?thesis
    proof (cases "fake_step e sched args bt out s1")
      case f: (Pair r2 s2)
      have v2: "loss_var s2 = None" "log_calls s2 = log_calls s"
        using f fake_step_keeps_loss_var[OF assms(1), of e sched bt out s1]
          fake_step_keeps_log[of e sched args bt out s1] v1 by simp_all
      show ?thesis
      proof (cases r2)
        case (Inl err)
        then show ?thesis using Pair Inr f v2 by (simp add: train_iteration_def)
      next
        case r: (Inr loss_d)
        show ?thesis
        proof (cases "checkpoint_step e args s2")
          case c: (Pair r3 s3)
          have v3: "loss_var s3 = None" "log_calls s3 = log_calls s"
            using c checkpoint_step_keeps[of e args s2] v2 by simp_all
          show ?thesis
            using Pair Inr f r c v3
            by (cases r3) (simp_all add: train_iteration_def log_step_unbound)
        qed
      qed
    qed
  qed
qed

lemma ex_generate:
  "generate (student_unet_of ex_env s) ex_sched (no_graph [[[[Fin 3, Fin (6 / 5)]]]])
     \<lparr>val = v, leaves = {}\<rparr>
   = Inr \<lparr>val = [[[[Fin 5, Fin 2]]]], leaves = {Student}\<rparr>"
  by (simp add: generate_def Let_def student_unet_of_def ex_env_def no_graph_def
      encode_prompt_def zeros_like_def smap_def eps_to_mu_def ex_sched_def index_tensor_def
      shape4_def shape3_def smap2_def pred_original_def fmul_def fsub_def sqrt_9_25 sqrt_16_25)

lemma ex_eps_to_mu2:
  "eps_to_mu ex_sched [[[[Fin 0, Fin 0]]], [[[Fin 0, Fin 0]]]]
     [[[[Fin (19 / 5), Fin 2]]], [[[Fin (19 / 5), Fin 2]]]] [1, 1]
   = Inr [[[[Fin (19 / 3), Fin (10 / 3)]]], [[[Fin (19 / 3), Fin (10 / 3)]]]]"
  by (simp add: eps_to_mu_def ex_sched_def index_tensor_def shape4_def shape3_def smap2_def
      pred_original_def fmul_def fsub_def sqrt_9_25 sqrt_16_25)

lemma ex_dm_estimates2:
  "dm_estimates (real_unet_of ex_env s) (fake_unet_of ex_env s) ex_sched
     [[[[Fin 5, Fin 2]]], [[[Fin 5, Fin 2]]]] [[], []] [[], []] ex_args [1, 1]
     [[[[Fin 1, Fin 1]]], [[[Fin 1, Fin 1]]]]
   = Inr ([[[[Fin (19 / 3), Fin (10 / 3)]]], [[[Fin (19 / 3), Fin (10 / 3)]]]],
          [[[[Fin (19 / 3), Fin (10 / 3)]]], [[[Fin (19 / 3), Fin (10 / 3)]]]])"
proof -
  have a: "add_noise ex_sched [[[[Fin 5, Fin 2]]], [[[Fin 5, Fin 2]]]]
     [[[[Fin 1, Fin 1]]], [[[Fin 1, Fin 1]]]] [1, 1]
   = Inr [[[[Fin (19 / 5), Fin 2]]], [[[Fin (19 / 5), Fin 2]]]]"
    using ex_add_noise2[of "''epsilon''"] by (simp add: ex_sched_def)
  have r: "py_int (real_of_int (num_train_timesteps ex_sched) * min_dm_step_ratio ex_args) = 0"
      "py_int (real_of_int (num_train_timesteps ex_sched) * max_dm_step_ratio ex_args) = 2"
    by (simp_all add: py_int_def ex_sched_def ex_args_def)
  have g: "guidance_scale ex_args = 1" by (simp add: ex_args_def)
  have f: "forward (fake_unet_of ex_env s) = (\<lambda>x t c. zeros_like x)"
      "forward (real_unet_of ex_env s) = (\<lambda>x t c. zeros_like x)"
    by (simp_all add: fake_unet_of_def real_unet_of_def ex_env_def)
  have z: "zeros_like [[[[Fin (19 / 5), Fin 2]]], [[[Fin (19 / 5), Fin 2]]]]
      = [[[[Fin 0, Fin 0]]], [[[Fin 0, Fin 0]]]]"
    by (simp add: zeros_like_def smap_def)
  have c: "chunk2 (zeros_like [[[[Fin (19 / 5), Fin 2]]], [[[Fin (19 / 5), Fin 2]]],
                               [[[Fin (19 / 5), Fin 2]]], [[[Fin (19 / 5), Fin 2]]]])
      = Inr ([[[[Fin 0, Fin 0]]], [[[Fin 0, Fin 0]]]], [[[[Fin 0, Fin 0]]], [[[Fin 0, Fin 0]]]])"
    by (simp add: chunk2_def zeros_like_def smap_def)
  have t: "tmap2 (guided 1) [[[[Fin 0, Fin 0]]], [[[Fin 0, Fin 0]]]]
      [[[[Fin 0, Fin 0]]], [[[Fin 0, Fin 0]]]] = [[[[Fin 0, Fin 0]]], [[[Fin 0, Fin 0]]]]"
    by (simp add: tmap2_def smap2_def guided_def fadd_def fmul_def fsub_def)
  show ?thesis
    unfolding dm_estimates_def r
    by (simp add: Let_def a f z c t g ex_eps_to_mu2)
qed

lemma ex_dm_loss:
  "distribution_matching_loss (real_unet_of ex_env s) (fake_unet_of ex_env s) ex_sched
     \<lparr>val = [[[[Fin 5, Fin 2]]], [[[Fin 5, Fin 2]]]], leaves = {Student}\<rparr>
     [[], []] [[], []] ex_args [1, 1] [[[[Fin 1, Fin 1]]], [[[Fin 1, Fin 1]]]]
   = Inr \<lparr>val = Fin 0, leaves = {Student}\<rparr>"
proof -
  have w: "weighting_factor [[[[Fin 5, Fin 2]]], [[[Fin 5, Fin 2]]]]
      [[[[Fin (19 / 3), Fin (10 / 3)]]], [[[Fin (19 / 3), Fin (10 / 3)]]]]
      = [Fin (4 / 3), Fin (4 / 3)]"
    by (simp add: weighting_factor_def smap2_def flat_def fmean_def fsum_def fadd_def fsub_def)
  have g: "dm_grad [[[[Fin (19 / 3), Fin (10 / 3)]]], [[[Fin (19 / 3), Fin (10 / 3)]]]]
      [[[[Fin (19 / 3), Fin (10 / 3)]]], [[[Fin (19 / 3), Fin (10 / 3)]]]]
      [Fin (4 / 3), Fin (4 / 3)] = [[[[Fin 0, Fin 0]]], [[[Fin 0, Fin 0]]]]"
    by (simp add: dm_grad_def smap2_def smap_def fsub_def)
  have t: "tmap2 fsub [[[[Fin 5, Fin 2]]], [[[Fin 5, Fin 2]]]]
      [[[[Fin 0, Fin 0]]], [[[Fin 0, Fin 0]]]] = [[[[Fin 5, Fin 2]]], [[[Fin 5, Fin 2]]]]"
    by (simp add: tmap2_def smap2_def fsub_def)
  have m: "mse_loss [[[[Fin 5, Fin 2]]], [[[Fin 5, Fin 2]]]]
      [[[[Fin 5, Fin 2]]], [[[Fin 5, Fin 2]]]] = Fin 0"
    by (simp add: mse_loss_def tmap2_def smap2_def tflat_def flat_def fmean_def fsum_def
        fadd_def fsub_def fmul_def)
  show ?thesis
    by (simp add: distribution_matching_loss_def ex_dm_estimates2 Let_def w g t m stopgrad_def)
qed

lemma ex_student_step:
  "student_step ex_env ex_sched ex_args ex_batch ex_state
     = (Inr ex_out, ex_state\<lparr>student_params := [- 1], optimizer_steps := [Student]\<rparr>)"
proof -
  have c: "cat \<lparr>val = [[[[Fin 5, Fin 2]]]], leaves = {Student}\<rparr>
               \<lparr>val = [[[[Fin 5, Fin 2]]]], leaves = {Student}\<rparr>
      = \<lparr>val = [[[[Fin 5, Fin 2]]], [[[Fin 5, Fin 2]]]], leaves = {Student}\<rparr>"
    by (simp add: cat_def)
  have e: "encode_prompt ex_env cs = \<lparr>val = map (\<lambda>c. []) cs, leaves = {}\<rparr>" for cs
    by (simp add: encode_prompt_def no_graph_def ex_env_def)
  have ga: "gradient_checkpointing ex_args = False" "reg_loss_weight ex_args = 1 / 4"
    by (simp_all add: ex_args_def)
  have l: "lpips ex_env a b = Fin 2" for a b by (simp add: ex_env_def)
  have o: "optimize ex_env ex_args Student (\<lambda>n. [1]) \<lparr>val = Fin (1 / 2), leaves = {Student}\<rparr> ex_state
      = ex_state\<lparr>student_params := [- 1], optimizer_steps := [Student]\<rparr>"
    by (simp add: optimize_def Let_def backward_def accumulate_def ex_env_def ex_state_def)
  show ?thesis
    unfolding student_step_def Let_def
    by (simp add: ga ex_batch_def ex_generate c e ex_dm_loss l o ex_out_def
        fadd_def fmul_def cat_def)
qed


lemma ex_fake_step_after_student:
  "fake_step ex_env ex_sched ex_args ex_batch ex_out
     (ex_state\<lparr>student_params := [- 1], optimizer_steps := [Student]\<rparr>)
   = (Inr \<lparr>val = Fin 1, leaves = {Fake}\<rparr>,
      ex_state\<lparr>student_params := [- 1], fake_params := [- 2],
                optimizer_steps := [Student, Fake]\<rparr>)"
proof -
  have a: "add_noise ex_sched [[[[Fin 5, Fin 2]]], [[[Fin 5, Fin 2]]]]
     [[[[Fin 1, Fin 1]]], [[[Fin 1, Fin 1]]]] [1, 1]
   = Inr [[[[Fin (19 / 5), Fin 2]]], [[[Fin (19 / 5), Fin 2]]]]"
    using ex_add_noise2[of "''epsilon''"] by (simp add: ex_sched_def)
  have p: "prediction_type ex_sched = ''epsilon''" "\<not> num_train_timesteps ex_sched \<le> 0"
    by (simp_all add: ex_sched_def)
  have z: "zeros_like [[[[Fin (19 / 5), Fin 2]]], [[[Fin (19 / 5), Fin 2]]]]
      = [[[[Fin 0, Fin 0]]], [[[Fin 0, Fin 0]]]]"
    by (simp add: zeros_like_def smap_def)
  show ?thesis
    unfolding fake_step_def Let_def
    by (simp add: p ex_args_def ex_batch_def ex_out_def stopgrad_def no_graph_def a
        regression_target_def fake_unet_of_def ex_env_def z shape4_def shape3_def
        fake_score_loss_def ex_mse optimize_def backward_def accumulate_def ex_state_def)
qed

lemma ex_checkpoint_step:
  "checkpoint_step ex_env ex_args
     (ex_state\<lparr>student_params := [- 1], fake_params := [- 2],
                optimizer_steps := [Student, Fake]\<rparr>)
   = (None, ex_state\<lparr>student_params := [- 1], fake_params := [- 2],
                      optimizer_steps := [Student, Fake], global_step := 1,
                      output_files := [''checkpoint-1'']\<rparr>)"
  by (simp add: checkpoint_step_def checkpoint_save_def Let_def ex_env_def ex_args_def
      ex_state_def removing_checkpoints_def sorted_checkpoints_def checkpoint_names_def
      save_state_def show_int_def digit_char_def)

theorem train_iteration_logs_nothing_witness:
  "snr_gamma ex_args = None \<and> loss_var ex_state = None
   \<and> student_step ex_env ex_sched ex_args ex_batch ex_state
        = (Inr ex_out, ex_state\<lparr>student_params := [- 1], optimizer_steps := [Student]\<rparr>)
   \<and> val (loss_g ex_out) = Fin (1 / 2)
   \<and> train_iteration ex_env ex_sched ex_args ex_batch ex_state
        = (Some (UnboundLocalError ''loss''),
           ex_state\<lparr>student_params := [- 1], fake_params := [- 2],
                     optimizer_steps := [Student, Fake], global_step := 1,
                     output_files := [''checkpoint-1'']\<rparr>)
   \<and> log_calls (snd (train_iteration ex_env ex_sched ex_args ex_batch ex_state)) = []"
proof -
  have g: "snr_gamma ex_args = None" by (simp add: ex_args_def)
  have l: "loss_var ex_state = None" by (simp add: ex_state_def)
  note t = train_iteration_logs_nothing[OF g l, of ex_env ex_sched ex_batch]
  have it: "train_iteration ex_env ex_sched ex_args ex_batch ex_state
        = (Some (UnboundLocalError ''loss''),
           ex_state\<lparr>student_params := [- 1], fake_params := [- 2],
                     optimizer_steps := [Student, Fake], global_step := 1,
                     output_files := [''checkpoint-1'']\<rparr>)"
    using t ex_student_step ex_fake_step_after_student ex_checkpoint_step by blast
  have "log_calls (snd (train_iteration ex_env ex_sched ex_args ex_batch ex_state)) = []"
    using t by (simp add: ex_state_def)
  then show ?thesis
    using g l ex_student_step it by (simp add: ex_out_def)
qed

lemma fsum_NonFinite: "NonFinite \<in> set xs \<Longrightarrow> fsum xs = NonFinite"
proof (induction xs)
  case Nil
  then show ?case by simp
next
  case (Cons x xs)
  show ?case
  proof (cases "x = NonFinite")
    case True
    then show ?thesis by (simp add: fsum_def fadd_def)
  next
    case False
    then have "NonFinite \<in> set xs" using Cons.prems by auto
    then have "fsum xs = NonFinite" by (rule Cons.IH)
    then show ?thesis by (cases x) (simp_all add: fsum_def fadd_def)
  qed
qed

lemma fmean_NonFinite: "NonFinite \<in> set xs \<Longrightarrow> fmean xs = NonFinite"
  by (simp add: fmean_def fsum_NonFinite)

lemma fmean_Nil: "fmean [] = NonFinite"
  by (simp add: fmean_def fsum_def)

lemma all_Fin_list: "NonFinite \<notin> set xs \<Longrightarrow> \<exists>ys. xs = map Fin ys"
proof (induction xs)
  case Nil
  then show ?case by simp
next
  case (Cons x xs)
  then obtain ys where ys: "xs = map Fin ys" by auto
  from Cons.prems obtain v where "x = Fin v" by (cases x) auto
  then have "x # xs = map Fin (v # ys)" using ys by simp
  then show ?case by (rule exI)
qed

lemma all_Fin_lists: "NonFinite \<notin> set (concat X) \<Longrightarrow> \<exists>Y. X = map (map Fin) Y"
proof (induction X)
  case Nil
  then show ?case by simp
next
  case (Cons xs X)
  then obtain Y where Y: "X = map (map Fin) Y" by auto
  from Cons.prems obtain ys where "xs = map Fin ys" using all_Fin_list[of xs] by auto
  then have "xs # X = map (map Fin) (ys # Y)" using Y by simp
  then show ?case by (rule exI)
qed

lemma sum_list_map_divide:
  "sum_list (map (\<lambda>y. f y / c) ys) = sum_list (map f ys) / (c::real)"
  by (induction ys) (simp_all add: add_divide_distrib)

lemma sum_list_concat_real:
  "sum_list (concat Y) = sum_list (map sum_list Y)" for Y :: "real list list"
  by (induction Y) simp_all

lemma length_concat_const:
  "\<forall>ys \<in> set Y. length ys = n \<Longrightarrow> length (concat Y) = n * length Y"
  by (induction Y) simp_all

lemma mean_of_means:
  assumes len: "\<forall>xs \<in> set X. length xs = n"
  shows "fmean (map fmean X) = fmean (concat X)"
proof (cases "X = []")
  case True
  then show ?thesis by simp
next
  case ne: False
  show ?thesis
  proof (cases "n = 0")
    case True
    then have e: "\<forall>xs \<in> set X. xs = []" using len by auto
    have ce: "concat X = []" using e by simp
    have r: "fmean (concat X) = NonFinite" unfolding ce by (rule fmean_Nil)
    obtain xs where "xs \<in> set X" using ne by (cases X) auto
    then have "fmean xs \<in> set (map fmean X)" by simp
    moreover have "fmean xs = NonFinite"
    proof -
      have "xs = []" using e \<open>xs \<in> set X\<close> by blast
      then show ?thesis by (simp add: fmean_Nil)
    qed
    ultimately have "NonFinite \<in> set (map fmean X)" by simp
    then show ?thesis using r by (simp add: fmean_NonFinite)
  next
    case n: False
    show ?thesis
    proof (cases "NonFinite \<in> set (concat X)")
      case True
      then obtain xs where xs: "xs \<in> set X" "NonFinite \<in> set xs" by auto
      then have "fmean xs = NonFinite" by (simp add: fmean_NonFinite)
      moreover have "fmean xs \<in> set (map fmean X)" using xs(1) by simp
      ultimately have "NonFinite \<in> set (map fmean X)" by simp
      then show ?thesis using True by (simp add: fmean_NonFinite)
    next
      case False
      then obtain Y where Y: "X = map (map Fin) Y" using all_Fin_lists by blast
      have lenY: "\<forall>ys \<in> set Y. length ys = n" using len Y by auto
      have neY: "Y \<noteq> []" using ne Y by simp
      have m: "fmean (map Fin ys) = Fin (sum_list ys / real n)" if "ys \<in> set Y" for ys
      proof -
        have "ys \<noteq> []" using lenY that n by auto
        then show ?thesis using fmean_Fin[of ys] lenY that by simp
      qed
      have "map fmean X = map Fin (map (\<lambda>ys. sum_list ys / real n) Y)"
        using m by (simp add: Y comp_def)
      then have "fmean (map fmean X)
          = Fin (sum_list (map (\<lambda>ys. sum_list ys / real n) Y) / real (length Y))"
        using fmean_Fin[of "map (\<lambda>ys. sum_list ys / real n) Y"] neY by simp
      also have "\<dots> = Fin (sum_list (map sum_list Y) / real n / real (length Y))"
        by (simp add: sum_list_map_divide)
      finally have l: "fmean (map fmean X)
          = Fin (sum_list (map sum_list Y) / real n / real (length Y))" .
      have c: "concat X = map Fin (concat Y)" by (simp add: Y map_concat)
      have cne: "concat Y \<noteq> []"
      proof -
        obtain ys where "ys \<in> set Y" using neY by (cases Y) auto
        then have "ys \<noteq> []" using lenY n by auto
        then show ?thesis using \<open>ys \<in> set Y\<close> by auto
      qed
      have "fmean (concat X) = Fin (sum_list (concat Y) / real (length (concat Y)))"
        unfolding c using fmean_Fin[OF cne] by simp
      also have "\<dots> = Fin (sum_list (map sum_list Y) / real (n * length Y))"
        by (simp add: sum_list_concat_real length_concat_const[OF lenY])
      finally show ?thesis using l by simp
    qed
  qed
qed

lemma length_flat: "length (flat s) = sum_list (map sum_list (shape3 s))"
  by (induction s) (simp_all add: flat_def shape3_def length_concat comp_def)

lemma length_flat_smap2:
  "shape3 t = shape3 m \<Longrightarrow> length (flat (smap2 f m t)) = length (flat m)"
  by (simp add: length_flat shape3_smap2)

lemma per_sample_mse_flat:
  "per_sample_mse mp tg
     = map fmean (map flat (tmap2 (\<lambda>x y. fmul (fsub x y) (fsub x y)) mp tg))"
  by (simp add: per_sample_mse_def tmap2_def comp_def case_prod_beta)

lemma fmul_one: "fmul x (Fin 1) = x"
  by (cases x) (simp_all add: fmul_def)

lemma unit_weights:
  assumes snr: "\<forall>x \<in> set snr. \<exists>v. x = Fin v \<and> 0 < v \<and> v \<le> gamma"
    and ls: "length snr = length timesteps"
  shows "mse_loss_weights snr gamma timesteps = map (\<lambda>_. Fin 1) timesteps"
  unfolding mse_loss_weights_def
proof (rule nth_equalityI)
  show "length (map2 (\<lambda>x g. fdiv (fmin x g) x) snr (map (\<lambda>_. Fin gamma) timesteps))
      = length (map (\<lambda>_. Fin 1) timesteps)"
    using ls by simp
next
  fix i assume "i < length (map2 (\<lambda>x g. fdiv (fmin x g) x) snr (map (\<lambda>_. Fin gamma) timesteps))"
  then have i: "i < length snr" "i < length timesteps" using ls by simp_all
  then have "snr ! i \<in> set snr" by simp
  then obtain v where v: "snr ! i = Fin v" "0 < v" "v \<le> gamma" using snr by blast
  have "fdiv (fmin (snr ! i) (Fin gamma)) (snr ! i) = Fin 1"
    using v by (simp add: min_def)
  then show "map2 (\<lambda>x g. fdiv (fmin x g) x) snr (map (\<lambda>_. Fin gamma) timesteps) ! i
      = map (\<lambda>_. Fin 1) timesteps ! i"
    using i by simp
qed

lemma map2_fmul_ones:
  assumes "length ps = length ts"
  shows "map2 fmul ps (map (\<lambda>_. Fin 1) ts) = ps"
  using assms by (intro nth_equalityI) (simp_all add: fmul_one)

lemma per_sample_mean_is_mse:
  assumes sh: "shape4 tg = shape4 mp" and rect: "\<forall>m \<in> set mp. length (flat m) = n"
  shows "fmean (per_sample_mse mp tg) = mse_loss mp tg"
proof -
  let ?sq = "\<lambda>x y. fmul (fsub x y) (fsub x y)"
  have lt: "length tg = length mp" by (rule shape4_length[OF sh])
  have "\<forall>xs \<in> set (map flat (tmap2 ?sq mp tg)). length xs = n"
  proof
    fix xs assume "xs \<in> set (map flat (tmap2 ?sq mp tg))"
    then obtain d where d: "d \<in> set (map2 (smap2 ?sq) mp tg)" and xs: "xs = flat d"
      by (auto simp: tmap2_def)
    from d obtain b where b: "b < length mp" and db: "d = smap2 ?sq (mp ! b) (tg ! b)"
      using lt by (auto simp: in_set_conv_nth)
    have "length (flat d) = length (flat (mp ! b))"
      unfolding db by (rule length_flat_smap2) (rule shape4_nth[OF sh b])
    then show "length xs = n" using rect b xs by simp
  qed
  then have "fmean (map fmean (map flat (tmap2 ?sq mp tg)))
      = fmean (concat (map flat (tmap2 ?sq mp tg)))"
    by (rule mean_of_means)
  then show ?thesis
    by (simp add: per_sample_mse_flat mse_loss_def tflat_def)
qed

text \<open>
  Claim C9. With \<open>snr_gamma\<close> set to \<open>gamma\<close>, if every SNR the weights are computed from
  (the \<open>snr\<close> of line 426, after the \<open>+ 1\<close> of the velocity mode) is a positive number not
  above \<open>gamma\<close>, then every weight \<open>min(snr, gamma) / snr\<close> is exactly 1 and the
  reweighted loss \<open>loss_d\<close> equals the unweighted mean-squared error, which is also what the
  code computes without \<open>snr_gamma\<close>. (Tensors are rectangular: every sample has the same
  number of entries.)
\<close>

theorem snr_gamma_unit_weights:
  assumes g: "snr_gamma args = Some gamma"
    and snr: "\<forall>x \<in> set (effective_snr e sched timesteps). \<exists>v. x = Fin v \<and> 0 < v \<and> v \<le> gamma"
    and ls: "length (effective_snr e sched timesteps) = length timesteps"
    and lt: "length timesteps = length (val model_pred)"
    and sh: "shape4 (val target) = shape4 (val model_pred)"
    and rect: "\<forall>m \<in> set (val model_pred). length (flat m) = n"
  shows "mse_loss_weights (effective_snr e sched timesteps) gamma timesteps
           = map (\<lambda>_. Fin 1) timesteps
    \<and> (\<exists>loss_d loss. fake_score_loss e sched args model_pred target timesteps before
                        = Inr (loss_d, Some loss)
          \<and> val loss_d = mse_loss (val model_pred) (val target)
          \<and> (\<exists>unweighted. fake_score_loss e sched (args\<lparr>snr_gamma := None\<rparr>) model_pred target
                               timesteps before = Inr (unweighted, before)
                \<and> val unweighted = val loss_d))"
proof -
  have w: "mse_loss_weights (effective_snr e sched timesteps) gamma timesteps
      = map (\<lambda>_. Fin 1) timesteps"
    by (rule unit_weights[OF snr ls])
  have lp: "length (per_sample_mse (val model_pred) (val target)) = length timesteps"
    using lt shape4_length[OF sh] by (simp add: per_sample_mse_def)
  have l: "map2 fmul (per_sample_mse (val model_pred) (val target)) (map (\<lambda>_. Fin 1) timesteps)
      = per_sample_mse (val model_pred) (val target)"
    by (rule map2_fmul_ones[OF lp])
  have m: "fmean (per_sample_mse (val model_pred) (val target))
      = mse_loss (val model_pred) (val target)"
    by (rule per_sample_mean_is_mse[OF sh rect])
  show ?thesis
    using g ls lt w l m by (simp add: fake_score_loss_def Let_def)
qed


theorem snr_gamma_unit_weights_witness:
  "snr_gamma (ex_args\<lparr>snr_gamma := Some 5\<rparr>) = Some 5
   \<and> effective_snr ex_env (ex_sched\<lparr>prediction_type := ''v_prediction''\<rparr>) [1, 1]
        = [Fin 2, Fin 2]
   \<and> mse_loss_weights [Fin 2, Fin 2] 5 [1, 1] = [Fin 1, Fin 1]
   \<and> (\<exists>loss_d loss.
         fake_score_loss ex_env (ex_sched\<lparr>prediction_type := ''v_prediction''\<rparr>)
           (ex_args\<lparr>snr_gamma := Some 5\<rparr>)
           \<lparr>val = [[[[Fin 0, Fin 0]]], [[[Fin 0, Fin 0]]]], leaves = {Fake}\<rparr>
           \<lparr>val = [[[[Fin 1, Fin 1]]], [[[Fin 1, Fin 1]]]], leaves = {}\<rparr> [1, 1] None
           = Inr (loss_d, Some loss)
       \<and> val loss_d = Fin 1)"
proof -
  let ?sched = "ex_sched\<lparr>prediction_type := ''v_prediction''\<rparr>"
  let ?args = "ex_args\<lparr>snr_gamma := Some 5\<rparr>"
  let ?mp = "\<lparr>val = [[[[Fin 0, Fin 0]]], [[[Fin 0, Fin 0]]]], leaves = {Fake}\<rparr>"
  let ?tg = "\<lparr>val = [[[[Fin 1, Fin 1]]], [[[Fin 1, Fin 1]]]], leaves = {}\<rparr> :: tensor tracked"
  have g: "snr_gamma ?args = Some 5" by simp
  have es: "effective_snr ex_env ?sched [1, 1] = [Fin 2, Fin 2]"
    by (simp add: effective_snr_def ex_env_def fadd_def)
  have snr: "\<forall>x \<in> set (effective_snr ex_env ?sched [1, 1]). \<exists>v. x = Fin v \<and> 0 < v \<and> v \<le> 5"
    unfolding es by simp
  have ls: "length (effective_snr ex_env ?sched [1, 1]) = length [1::int, 1]"
    unfolding es by simp
  have lt: "length [1::int, 1] = length (val ?mp)" by simp
  have sh: "shape4 (val ?tg) = shape4 (val ?mp)" by (simp add: shape4_def shape3_def)
  have rect: "\<forall>m \<in> set (val ?mp). length (flat m) = 2" by (simp add: flat_def)
  note t = snr_gamma_unit_weights[OF g snr ls lt sh rect, of None]
  have w: "mse_loss_weights [Fin 2, Fin 2] 5 [1, 1] = [Fin 1, Fin 1]"
    using t unfolding es by simp
  have "\<exists>loss_d loss. fake_score_loss ex_env ?sched ?args ?mp ?tg [1, 1] None
        = Inr (loss_d, Some loss) \<and> val loss_d = Fin 1"
    using t by (auto simp: ex_mse)
  then show ?thesis using g es w by blast
qed

section \<open>Checkpoint retention\<close>

lemma step_keys_Inr:
  "step_keys xs = Inr ks \<Longrightarrow> length ks = length xs \<and> map step_key xs = map Inr ks"
proof (induction xs arbitrary: ks)
  case Nil
  then show ?case by simp
next
  case (Cons x xs)
  from Cons.prems obtain k ks' where k: "step_key x = Inr k" and ks': "step_keys xs = Inr ks'"
      and e: "ks = k # ks'"
    by (auto split: sum.splits)
  show ?case using Cons.IH[OF ks'] k e by simp
qed

lemma zip_keys_step_key:
  assumes "step_keys xs = Inr ks" and "(k, x) \<in> set (zip ks xs)"
  shows "step_key x = Inr k"
proof -
  from assms(2) obtain i where i: "i < length ks" "i < length xs" "ks ! i = k" "xs ! i = x"
    by (auto simp: in_set_zip)
  have "map step_key xs ! i = map Inr ks ! i" using step_keys_Inr[OF assms(1)] by simp
  then show ?thesis using i by simp
qed

lemma fold_rmtree: "fold rmtree rs files = filter (\<lambda>d. d \<notin> set rs) files"
proof -
  have r: "rmtree = removeAll" by (intro ext) (simp add: rmtree_def)
  have "fold removeAll rs files = filter (\<lambda>d. d \<notin> set rs) files"
  proof (induction rs arbitrary: files)
    case Nil
    then show ?case by simp
  next
    case (Cons r rs)
    have "fold removeAll (r # rs) files = filter (\<lambda>d. d \<notin> set rs) (removeAll r files)"
      using Cons.IH by simp
    also have "\<dots> = filter (\<lambda>d. d \<notin> set (r # rs)) files"
      by (induction files) auto
    finally show ?case .
  qed
  then show ?thesis by (simp add: r)
qed

lemma checkpoint_names_filter:
  "checkpoint_names (filter P files) = filter P (checkpoint_names files)"
  by (auto simp: checkpoint_names_def intro: filter_cong)

lemma starts_with_checkpoint: "starts_with (''checkpoint-'' @ x) ''checkpoint''"
  by (simp add: starts_with_def)

lemma checkpoint_names_snoc:
  "checkpoint_names (files @ [''checkpoint-'' @ x]) = checkpoint_names files @ [''checkpoint-'' @ x]"
  using starts_with_checkpoint[of x] by (simp add: checkpoint_names_def)

lemma length_filter_removed:
  assumes "distinct cps" "distinct rs" "set rs \<subseteq> set cps"
  shows "length (filter (\<lambda>d. d \<notin> set rs) cps) = length cps - length rs"
proof -
  have "distinct (filter (\<lambda>d. d \<notin> set rs) cps)" using assms(1) by simp
  then have "length (filter (\<lambda>d. d \<notin> set rs) cps) = card (set cps - set rs)"
    using distinct_card[of "filter (\<lambda>d. d \<notin> set rs) cps"] by (simp add: set_diff_eq)
  also have "\<dots> = card (set cps) - card (set rs)"
    using assms(3) by (simp add: card_Diff_subset)
  finally show ?thesis using assms(1,2) by (simp add: distinct_card)
qed


lemma sorted_checkpoints_props:
  assumes keys: "step_keys (checkpoint_names files) = Inr ks" and dist: "distinct files"
  shows "\<exists>S. sorted_checkpoints files = Inr S \<and> distinct S
           \<and> set S = set (checkpoint_names files)
           \<and> length S = length (checkpoint_names files)
           \<and> (\<forall>i j ki kj. i \<le> j \<and> j < length S \<and> step_key (S ! i) = Inr ki
                  \<and> step_key (S ! j) = Inr kj \<longrightarrow> ki \<le> kj)"
proof -
  let ?cps = "checkpoint_names files"
  let ?zs = "zip ks ?cps"
  let ?Z = "sort_key fst ?zs"
  let ?S = "map snd ?Z"
  have lk: "length ks = length ?cps" using step_keys_Inr[OF keys] by simp
  have ms: "map snd ?zs = ?cps" using lk by simp
  have dc: "distinct ?cps" using dist by (simp add: checkpoint_names_def)
  have dz: "distinct ?zs" "inj_on snd (set ?zs)"
    using dc ms by (metis distinct_map)+
  have dS: "distinct ?S"
    using dz by (simp add: distinct_map)
  have sS: "set ?S = set ?cps"
  proof -
    have "set ?S = snd ` set ?zs" by simp
    also have "\<dots> = set (map snd ?zs)" by simp
    finally show ?thesis using ms by simp
  qed
  have lS: "length ?S = length ?cps" using lk by simp
  have key: "step_key (?S ! i) = Inr (fst (?Z ! i))" if "i < length ?S" for i
  proof -
    have "i < length ?Z" using that by simp
    then have "?Z ! i \<in> set ?Z" by (rule nth_mem)
    then have "(fst (?Z ! i), snd (?Z ! i)) \<in> set ?zs" by simp
    then have "step_key (snd (?Z ! i)) = Inr (fst (?Z ! i))"
      by (rule zip_keys_step_key[OF keys])
    then show ?thesis using that by simp
  qed
  have srt: "sorted (map fst ?Z)" by (rule sorted_sort_key)
  have ord: "ki \<le> kj"
    if "i \<le> j \<and> j < length ?S \<and> step_key (?S ! i) = Inr ki \<and> step_key (?S ! j) = Inr kj"
    for i j ki kj
  proof -
    have j: "j < length ?S" and i: "i < length ?S" using that by simp_all
    have "map fst ?Z ! i \<le> map fst ?Z ! j"
      using srt that by (intro sorted_nth_mono) simp_all
    then have "fst (?Z ! i) \<le> fst (?Z ! j)" using i j by simp
    moreover have "ki = fst (?Z ! i)" using key[OF i] that by simp
    moreover have "kj = fst (?Z ! j)" using key[OF j] that by simp
    ultimately show ?thesis by simp
  qed
  have "sorted_checkpoints files = Inr ?S"
    using keys by (simp add: sorted_checkpoints_def Let_def)
  then show ?thesis using dS sS lS ord by blast
qed


text \<open>
  Claim C6, amended. When a checkpoint save occurs with a retention limit \<open>N \<ge> 1\<close> and
  \<open>M \<ge> N\<close> checkpoints present (distinct entries with well-formed names, the new name not
  among them), exactly \<open>M - N + 1\<close> checkpoints are deleted before the save, they are the
  oldest (no deleted checkpoint has a larger step than a kept one), and after the save
  exactly \<open>N\<close> checkpoints are present: the kept ones and the new one.
\<close>

theorem checkpoint_retention:
  assumes lim: "checkpoints_total_limit args = Some N" and N1: "1 \<le> N"
    and keys: "step_keys (checkpoint_names (output_files s)) = Inr ks"
    and dist: "distinct (output_files s)"
    and M: "N \<le> int (length (checkpoint_names (output_files s)))"
    and fresh: "''checkpoint-'' @ show_int (global_step s) \<notin> set (output_files s)"
  shows "\<exists>removing s'.
      removing_checkpoints (output_files s) N = Inr removing
    \<and> checkpoint_save args s = (None, s')
    \<and> int (length removing) = int (length (checkpoint_names (output_files s))) - N + 1
    \<and> distinct removing
    \<and> set removing \<subseteq> set (checkpoint_names (output_files s))
    \<and> (\<forall>r k kr kk. r \<in> set removing \<and> k \<in> set (checkpoint_names (output_files s))
            \<and> k \<notin> set removing \<and> step_key r = Inr kr \<and> step_key k = Inr kk
          \<longrightarrow> kr \<le> kk)
    \<and> set (checkpoint_names (output_files s'))
        = (set (checkpoint_names (output_files s)) - set removing)
          \<union> {''checkpoint-'' @ show_int (global_step s)}
    \<and> int (length (checkpoint_names (output_files s'))) = N"
proof -
  let ?files = "output_files s"
  let ?cps = "checkpoint_names ?files"
  let ?new = "''checkpoint-'' @ show_int (global_step s)"
  from sorted_checkpoints_props[OF keys dist]
  obtain S where S: "sorted_checkpoints ?files = Inr S" and dS: "distinct S"
      and sS: "set S = set ?cps" and lS: "length S = length ?cps"
      and ord: "\<And>i j ki kj. i \<le> j \<and> j < length S \<and> step_key (S ! i) = Inr ki
                  \<and> step_key (S ! j) = Inr kj \<Longrightarrow> ki \<le> kj"
    by blast
  let ?m = "nat (int (length S) - N + 1)"
  let ?rem = "take ?m S"
  have m: "int ?m = int (length ?cps) - N + 1" "?m \<le> length S"
    using N1 M lS by simp_all
  have rc: "removing_checkpoints ?files N = Inr ?rem"
    using S M lS by (simp add: removing_checkpoints_def Let_def)
  have lr: "length ?rem = ?m" using m(2) by simp
  have dr: "distinct ?rem" using dS by simp
  have sr: "set ?rem \<subseteq> set ?cps" using sS by (metis set_take_subset)
  have old: "kr \<le> kk"
    if h: "r \<in> set ?rem \<and> k \<in> set ?cps \<and> k \<notin> set ?rem
         \<and> step_key r = Inr kr \<and> step_key k = Inr kk" for r k kr kk
  proof -
    from h obtain i where i: "i < ?m" "i < length S" "S ! i = r"
      by (auto simp: in_set_conv_nth)
    from h have "k \<in> set S" using sS by simp
    then obtain j where j: "j < length S" "S ! j = k" by (auto simp: in_set_conv_nth)
    have "\<not> j < ?m"
    proof
      assume "j < ?m"
      then have "take ?m S ! j = k" using j by simp
      moreover have "j < length (take ?m S)" using \<open>j < ?m\<close> j(1) by simp
      ultimately have "k \<in> set ?rem" by (metis nth_mem)
      then show False using h by simp
    qed
    then have "i \<le> j" using i(1) by simp
    then show ?thesis using ord[of i j kr kk] i j h by simp
  qed
  let ?files' = "filter (\<lambda>d. d \<notin> set ?rem) ?files"
  have nf: "?new \<notin> set ?files'" using fresh by simp
  obtain s' where s': "s' = s\<lparr>output_files := ?files' @ [?new]\<rparr>" by simp
  have os: "output_files s' = ?files' @ [?new]" by (simp add: s')
  have sv: "checkpoint_save args s = (None, s')"
    using lim rc nf by (simp add: checkpoint_save_def Let_def fold_rmtree save_state_def s')
  have cn: "checkpoint_names (?files' @ [?new]) = filter (\<lambda>d. d \<notin> set ?rem) ?cps @ [?new]"
    by (simp only: checkpoint_names_snoc checkpoint_names_filter)
  have dc: "distinct ?cps" using dist by (simp add: checkpoint_names_def)
  have lf: "length (filter (\<lambda>d. d \<notin> set ?rem) ?cps) = length ?cps - ?m"
    using length_filter_removed[OF dc dr sr] lr by simp
  have set': "set (checkpoint_names (output_files s')) = (set ?cps - set ?rem) \<union> {?new}"
    unfolding os cn by auto
  have len': "int (length (checkpoint_names (output_files s'))) = N"
    unfolding os cn using lf m lS by simp
  have lrem: "int (length ?rem) = int (length ?cps) - N + 1" using lr m(1) by simp
  have old': "\<forall>r k kr kk. r \<in> set ?rem \<and> k \<in> set ?cps \<and> k \<notin> set ?rem
        \<and> step_key r = Inr kr \<and> step_key k = Inr kk \<longrightarrow> kr \<le> kk"
    using old by blast
  show ?thesis
    apply (rule exI[of _ ?rem])
    apply (rule exI[of _ s'])
    apply (intro conjI)
           apply (rule rc)
          apply (rule sv)
         apply (rule lrem)
        apply (rule dr)
       apply (rule sr)
      apply (rule old')
     apply (rule set')
    apply (rule len')
    done
qed


lemma ex_checkpoint_names:
  "checkpoint_names ex_files = [''checkpoint-10'', ''checkpoint-9'', ''checkpoint-2'']"
  by (simp add: checkpoint_names_def ex_files_def starts_with_def)

lemma ex_step_key:
  "step_key ''checkpoint-10'' = Inr 10"
  "step_key ''checkpoint-9'' = Inr 9"
  "step_key ''checkpoint-2'' = Inr 2"
  by (simp_all add: step_key_def py_int_of_str_def unsigned_of_str_def digit_of_def)

lemma ex_removing:
  "removing_checkpoints ex_files 2 = Inr [''checkpoint-2'', ''checkpoint-9'']"
  by (simp add: removing_checkpoints_def sorted_checkpoints_def ex_checkpoint_names
      ex_step_key Let_def)

lemma ex_checkpoint_save:
  "checkpoint_save ex_args ex_saving_state
     = (None, ex_saving_state\<lparr>output_files := [''checkpoint-10'', ''logs'', ''checkpoint-11'']\<rparr>)"
proof -
  have l: "checkpoints_total_limit ex_args = Some 2" by (simp add: ex_args_def)
  have o: "output_files ex_saving_state = ex_files" "global_step ex_saving_state = 11"
    by (simp_all add: ex_saving_state_def)
  have f: "rmtree ''checkpoint-9'' (rmtree ''checkpoint-2'' ex_files) = [''checkpoint-10'', ''logs'']"
    by (simp add: rmtree_def ex_files_def)
  show ?thesis
    by (simp add: checkpoint_save_def l o ex_removing f Let_def save_state_def show_int_def
        digit_char_def)
qed

theorem checkpoint_retention_counterexample:
  "int (length (checkpoint_names ex_files)) = 3
   \<and> removing_checkpoints ex_files 2 = Inr [''checkpoint-2'', ''checkpoint-9'']
   \<and> \<not> (\<exists>removing. removing_checkpoints ex_files 2 = Inr removing
            \<and> int (length removing) = int (length (checkpoint_names ex_files)) - 2)"
  by (simp add: ex_removing ex_checkpoint_names)

theorem checkpoint_retention_witness:
  "checkpoints_total_limit ex_args = Some 2 \<and> (1::int) \<le> 2
   \<and> step_keys (checkpoint_names (output_files ex_saving_state)) = Inr [10, 9, 2]
   \<and> distinct (output_files ex_saving_state)
   \<and> 2 \<le> int (length (checkpoint_names (output_files ex_saving_state)))
   \<and> ''checkpoint-'' @ show_int (global_step ex_saving_state)
        \<notin> set (output_files ex_saving_state)
   \<and> removing_checkpoints (output_files ex_saving_state) 2
        = Inr [''checkpoint-2'', ''checkpoint-9'']
   \<and> int (length [''checkpoint-2'', ''checkpoint-9''])
        = int (length (checkpoint_names (output_files ex_saving_state))) - 2 + 1
   \<and> (\<exists>s'. checkpoint_save ex_args ex_saving_state = (None, s')
          \<and> output_files s' = [''checkpoint-10'', ''logs'', ''checkpoint-11'']
          \<and> int (length (checkpoint_names (output_files s'))) = 2)"
proof -
  have o: "output_files ex_saving_state = ex_files" "global_step ex_saving_state = 11"
    by (simp_all add: ex_saving_state_def)
  have l: "checkpoints_total_limit ex_args = Some 2" by (simp add: ex_args_def)
  have n: "(1::int) \<le> 2" by simp
  have k: "step_keys (checkpoint_names (output_files ex_saving_state)) = Inr [10, 9, 2]"
    by (simp add: o ex_checkpoint_names ex_step_key)
  have d: "distinct (output_files ex_saving_state)" by (simp add: o ex_files_def)
  have m: "2 \<le> int (length (checkpoint_names (output_files ex_saving_state)))"
    by (simp add: o ex_checkpoint_names)
  have f: "''checkpoint-'' @ show_int (global_step ex_saving_state)
      \<notin> set (output_files ex_saving_state)"
    by (simp add: o ex_files_def show_int_def digit_char_def)
  from checkpoint_retention[OF l n k d m f]
  obtain removing s' where r: "removing_checkpoints (output_files ex_saving_state) 2 = Inr removing"
      "checkpoint_save ex_args ex_saving_state = (None, s')"
      "int (length removing) = int (length (checkpoint_names (output_files ex_saving_state))) - 2 + 1"
      "int (length (checkpoint_names (output_files s'))) = 2"
    by blast
  have rm: "removing = [''checkpoint-2'', ''checkpoint-9'']"
    using r(1) by (simp add: o ex_removing)
  have os: "output_files s' = [''checkpoint-10'', ''logs'', ''checkpoint-11'']"
    using r(2) by (auto simp: ex_checkpoint_save)
  show ?thesis
    using l n k d m f r os unfolding rm by blast
qed

section \<open>Properties of \<open>main\<close>\<close>

text \<open>
  Claim C3. For every argument configuration (and whatever the collaborators return),
  \<open>main\<close> raises at the unpacking of the seven values of \<open>setup_model\<close> into eight names:
  it has entered \<open>setup_training\<close> and \<open>setup_model\<close> only, and never the training loop.
\<close>

theorem main_fails_at_unpacking:
  "main e args data =
     ([Setup_training, Setup_model],
      Inl (ValueError ''not enough values to unpack (expected 8, got 7)''))"
  by (simp add: main_def setup_model_def unpack8_def Let_def digit_char_def)

end
